theory Spec2Isabelle
  imports Main "HOL-Library.Sublist"
begin

section \<open>The configuration model of the photo bot\<close>

text \<open>
  This theory embeds \<^verbatim>\<open>src/photo_bot/infrastructure/config/settings.py\<close>: the class
  \<^verbatim>\<open>Settings\<close> (a \<^verbatim>\<open>pydantic_settings.BaseSettings\<close>), its four validators, its four
  derived properties, the call of \<^verbatim>\<open>load_dotenv()\<close> at import, the module-level cache
  \<^verbatim>\<open>_settings_instance\<close> and the functions \<^verbatim>\<open>get_settings\<close>, \<^verbatim>\<open>reload_settings\<close> and
  \<^verbatim>\<open>get_test_settings\<close>.

  Python strings are modelled as \<^typ>\<open>string\<close> (characters within the range of
  \<^typ>\<open>char\<close>), Python's unbounded \<^verbatim>\<open>int\<close> as \<^typ>\<open>int\<close>, \<^verbatim>\<open>Optional[str]\<close> as
  \<^typ>\<open>string option\<close>. An exception is a value: a validator that raises \<^verbatim>\<open>ValueError\<close>
  returns \<open>Inl\<close>, a construction that raises pydantic's \<^verbatim>\<open>ValidationError\<close> returns
  \<open>Inl\<close> of the list of errors it carries.

  The source declares the fields and leaves their processing to the library. What the
  model takes from the library's documented behaviour is stated where it is used:
  required fields and defaults, the validation of defaults, \<^verbatim>\<open>ge\<close>/\<^verbatim>\<open>le\<close> and
  \<^verbatim>\<open>pattern\<close>, validators that run after the checks of their field and see the
  fields validated before it, the collection of the errors of all fields, the
  rejection of undeclared entries of the dotenv file, the decoding of the entry of the
  list field by the settings sources, and the priority of the process environment over
  the dotenv file.
\<close>

subsection \<open>What the settings sources supply\<close>

text \<open>
  The class is instantiated without arguments, so every field value comes from the
  settings sources (process environment, dotenv file) or from the declared default.
  For one field the sources either have no entry (\<open>Unset\<close>), or an entry that the
  library's type check of the field rejects (\<open>Malformed\<close>, for instance \<^verbatim>\<open>PORT=abc\<close>),
  or an entry that the type check turns into the value \<open>v\<close> of the declared type
  (\<open>Given v\<close>). Reading the text of an entry of a \<^verbatim>\<open>str\<close>, \<^verbatim>\<open>int\<close> or \<^verbatim>\<open>bool\<close> field
  is the library's work and is not modelled.
\<close>

datatype 'a raw = Unset | Malformed | Given 'a

text \<open>
  \<^verbatim>\<open>SUPPORTED_FORMATS: List[str]\<close> is a complex field: a settings source decodes the
  text of its entry as JSON before any field is validated. \<open>Undecodable\<close>: there is an
  entry and its text is not JSON. \<open>Decoded x\<close>: the source hands \<open>x\<close> to the validation,
  where \<open>x\<close> is \<open>Unset\<close> when there is no entry, \<open>Malformed\<close> when the entry is JSON but
  not a list of strings, and \<open>Given l\<close> when it is the list \<open>l\<close>.
\<close>

datatype 'a decoded = Undecodable | Decoded 'a

text \<open>
  \<open>in_other_keys\<close> are the names of the further entries with a value that a dotenv file
  has besides those of the seventeen fields above. The library compares names without
  regard to case, so an entry for a declared field, however it is written, is that
  field's entry. (A record for the process environment has this component too; the
  environment source passes on the variables of declared fields only and never looks at
  it.)
\<close>

record inputs =
  in_TELEGRAM_BOT_TOKEN :: "string raw"
  in_PHOTOROOM_API_KEY :: "string raw"
  in_SECRET_TOKEN :: "string raw"
  in_HOST :: "string raw"
  in_PORT :: "int raw"
  in_WEBHOOK_URL :: "string raw"
  in_MAX_IMAGE_SIZE_MB :: "int raw"
  in_DEFAULT_IMAGE_QUALITY :: "int raw"
  in_SUPPORTED_FORMATS :: "string list raw decoded"
  in_REQUEST_TIMEOUT :: "int raw"
  in_SESSION_TTL :: "int raw"
  in_RATE_LIMIT_PER_MINUTE :: "int raw"
  in_ENABLE_PHOTOROOM :: "bool raw"
  in_ENABLE_PILLOW :: "bool raw"
  in_DEFAULT_PROCESSOR :: "string raw"
  in_LOG_LEVEL :: "string raw"
  in_ENABLE_FILE_LOGGING :: "bool raw"
  in_other_keys :: "string list"

subsection \<open>The constructed instance\<close>

record settings =
  TELEGRAM_BOT_TOKEN :: string
  PHOTOROOM_API_KEY :: string
  SECRET_TOKEN :: string
  HOST :: string
  PORT :: int
  WEBHOOK_URL :: "string option"
  MAX_IMAGE_SIZE_MB :: int
  DEFAULT_IMAGE_QUALITY :: int
  SUPPORTED_FORMATS :: "string list"
  REQUEST_TIMEOUT :: int
  SESSION_TTL :: int
  RATE_LIMIT_PER_MINUTE :: int
  ENABLE_PHOTOROOM :: bool
  ENABLE_PILLOW :: bool
  DEFAULT_PROCESSOR :: string
  LOG_LEVEL :: string
  ENABLE_FILE_LOGGING :: bool

subsection \<open>Errors\<close>

text \<open>
  The five \<^verbatim>\<open>ValueError\<close>s of the validators, named after what their (Russian)
  messages say: the bot token is not configured, the bot token has a wrong format, the
  Photoroom key is not configured, Photoroom is disabled but chosen as default processor,
  Pillow is disabled but chosen as default processor.
\<close>

datatype message =
  token_not_configured
  | token_bad_format
  | key_not_configured
  | photoroom_disabled
  | pillow_disabled

text \<open>
  One entry of a \<^verbatim>\<open>ValidationError\<close>: the name of the offending field or key (its
  \<^verbatim>\<open>loc\<close>) and the kind of the error. The kinds are those this class can produce: a
  required field without a value, a value of the wrong type, a number below \<^verbatim>\<open>ge\<close> or
  above \<^verbatim>\<open>le\<close>, a string that does not match \<^verbatim>\<open>pattern\<close>, a \<^verbatim>\<open>ValueError\<close> raised
  by a validator, and an input for a name that is not a declared field.
\<close>

datatype error_type =
  missing
  | type_error
  | greater_than_equal
  | less_than_equal
  | string_pattern_mismatch
  | value_error message
  | extra_forbidden

type_synonym error_details = "string \<times> error_type"

type_synonym validation_error = "error_details list"

text \<open>
  What the instantiation of the class raises: the \<^verbatim>\<open>SettingsError\<close> of a settings
  source that cannot decode the entry of the named field, or the \<^verbatim>\<open>ValidationError\<close>
  of the validation with all the errors it found.
\<close>

datatype construction_error =
  SettingsError string
  | ValidationError validation_error

subsection \<open>The field declarations of the library\<close>

text \<open>
  \<^verbatim>\<open>Field(default=...)\<close> declares a required field: a source must supply it.
\<close>

fun required :: "string \<Rightarrow> 'a raw \<Rightarrow> error_details + 'a" where
  "required name Unset = Inl (name, missing)"
| "required name Malformed = Inl (name, type_error)"
| "required name (Given v) = Inr v"

text \<open>
  \<^verbatim>\<open>Field(default=d)\<close>: the default stands in for a missing entry. The settings base
  class validates defaults like supplied values (its configuration has
  \<^verbatim>\<open>validate_default=True\<close>), so the constraints and the validators below run on the
  default as well.
\<close>

fun with_default :: "string \<Rightarrow> 'a \<Rightarrow> 'a raw \<Rightarrow> error_details + 'a" where
  "with_default name d Unset = Inr d"
| "with_default name d Malformed = Inl (name, type_error)"
| "with_default name d (Given v) = Inr v"

text \<open>The next step of a field's validation runs only when the step before passed.\<close>

fun and_then :: "'e + 'a \<Rightarrow> ('a \<Rightarrow> 'e + 'b) \<Rightarrow> 'e + 'b" where
  "and_then (Inl e) f = Inl e"
| "and_then (Inr v) f = f v"

text \<open>\<^verbatim>\<open>ge=lo, le=hi\<close> on an \<^verbatim>\<open>int\<close> field.\<close>

definition ge_le :: "string \<Rightarrow> int \<Rightarrow> int \<Rightarrow> int \<Rightarrow> error_details + int" where
  "ge_le name lo hi v =
     (if v < lo then Inl (name, greater_than_equal)
      else if hi < v then Inl (name, less_than_equal)
      else Inr v)"

text \<open>
  \<^verbatim>\<open>pattern='^(a|b|...)$'\<close> on a \<^verbatim>\<open>str\<close> field: the whole string is one of the
  alternatives.
\<close>

definition pattern :: "string \<Rightarrow> string list \<Rightarrow> string \<Rightarrow> error_details + string" where
  "pattern name alternatives v =
     (if v \<in> set alternatives then Inr v else Inl (name, string_pattern_mismatch))"

text \<open>
  \<^verbatim>\<open>@validator('NAME')\<close>: the decorated function runs on the value that passed the
  type and constraint checks of the field; its \<^verbatim>\<open>ValueError\<close> becomes an error of
  that field, its return value becomes the value of the field.
\<close>

definition validator :: "string \<Rightarrow> ('a \<Rightarrow> message + 'b) \<Rightarrow> 'a \<Rightarrow> error_details + 'b" where
  "validator name f v =
     (case f v of Inl m \<Rightarrow> Inl (name, value_error m) | Inr v' \<Rightarrow> Inr v')"

text \<open>
  Validation goes through the fields in the order of their declaration and collects the
  errors of all of them; the instance exists only when no field has an error.
\<close>

fun collect :: "validation_error + ('a \<Rightarrow> 'b) \<Rightarrow> error_details + 'a \<Rightarrow> validation_error + 'b" where
  "collect (Inr f) (Inr v) = Inr (f v)"
| "collect (Inr f) (Inl e) = Inl [e]"
| "collect (Inl es) (Inr v) = Inl es"
| "collect (Inl es) (Inl e) = Inl (es @ [e])"

subsection \<open>The validators of the class\<close>

text \<open>
  The fields of the first two validators and of the last are declared \<^verbatim>\<open>str\<close>, so
  the value that reaches them is a string and \<^verbatim>\<open>not v\<close> says that it is empty. The
  webhook URL is declared \<^verbatim>\<open>Optional[str]\<close>: there \<^verbatim>\<open>v\<close> may be \<^verbatim>\<open>None\<close>, which
  is falsy like the empty string.
\<close>

definition validate_telegram_token :: "string \<Rightarrow> message + string" where
  "validate_telegram_token v =
     (if v = [] \<or> v = ''your_telegram_bot_token_here'' then Inl token_not_configured
      else if CHR '':'' \<notin> set v \<or> length v < 30 then Inl token_bad_format
      else Inr v)"

definition validate_photoroom_key :: "string \<Rightarrow> message + string" where
  "validate_photoroom_key v =
     (if v = [] \<or> v = ''your_photoroom_api_key_here'' then Inl key_not_configured
      else Inr v)"

definition truthy :: "string option \<Rightarrow> bool" where
  "truthy v = (case v of None \<Rightarrow> False | Some s \<Rightarrow> s \<noteq> [])"

definition startswith :: "string option \<Rightarrow> string \<Rightarrow> bool" where
  "startswith v p = (case v of None \<Rightarrow> False | Some s \<Rightarrow> prefix p s)"

definition validate_webhook_url :: "string option \<Rightarrow> message + string option" where
  "validate_webhook_url v =
     (if truthy v \<and> startswith v ''https://yourdomain'' then Inr None else Inr v)"

text \<open>
  \<^verbatim>\<open>values\<close> holds the fields declared before \<^verbatim>\<open>DEFAULT_PROCESSOR\<close> that validated
  without error. The validator looks up the two toggles only, so the dictionary is
  modelled with the source's annotation \<^verbatim>\<open>dict[str, bool]\<close>; \<open>dict_get\<close> is
  \<^verbatim>\<open>values.get(key, default)\<close>.
\<close>

definition dict_get :: "(string \<rightharpoonup> bool) \<Rightarrow> string \<Rightarrow> bool \<Rightarrow> bool" where
  "dict_get values k d = (case values k of None \<Rightarrow> d | Some b \<Rightarrow> b)"

definition validate_default_processor :: "(string \<rightharpoonup> bool) \<Rightarrow> string \<Rightarrow> message + string" where
  "validate_default_processor values v =
     (if v = ''photoroom'' \<and> \<not> dict_get values ''ENABLE_PHOTOROOM'' True
        then Inl photoroom_disabled
      else if v = ''pillow'' \<and> \<not> dict_get values ''ENABLE_PILLOW'' True
        then Inl pillow_disabled
      else Inr v)"

subsection \<open>The fields of the class\<close>

definition field_TELEGRAM_BOT_TOKEN :: "inputs \<Rightarrow> error_details + string" where
  "field_TELEGRAM_BOT_TOKEN r =
     and_then (required ''TELEGRAM_BOT_TOKEN'' (in_TELEGRAM_BOT_TOKEN r))
       (validator ''TELEGRAM_BOT_TOKEN'' validate_telegram_token)"

definition field_PHOTOROOM_API_KEY :: "inputs \<Rightarrow> error_details + string" where
  "field_PHOTOROOM_API_KEY r =
     and_then (required ''PHOTOROOM_API_KEY'' (in_PHOTOROOM_API_KEY r))
       (validator ''PHOTOROOM_API_KEY'' validate_photoroom_key)"

definition field_SECRET_TOKEN :: "inputs \<Rightarrow> error_details + string" where
  "field_SECRET_TOKEN r =
     with_default ''SECRET_TOKEN'' ''my_secret_token_123'' (in_SECRET_TOKEN r)"

definition field_HOST :: "inputs \<Rightarrow> error_details + string" where
  "field_HOST r = with_default ''HOST'' ''127.0.0.1'' (in_HOST r)"

definition field_PORT :: "inputs \<Rightarrow> error_details + int" where
  "field_PORT r =
     and_then (with_default ''PORT'' 8000 (in_PORT r)) (ge_le ''PORT'' 1000 65535)"

text \<open>
  A source entry for the webhook URL is a string; \<^verbatim>\<open>None\<close> is the declared default.
\<close>

definition field_WEBHOOK_URL :: "inputs \<Rightarrow> error_details + string option" where
  "field_WEBHOOK_URL r =
     and_then
       (case in_WEBHOOK_URL r of
          Unset \<Rightarrow> Inr None
        | Malformed \<Rightarrow> Inl (''WEBHOOK_URL'', type_error)
        | Given s \<Rightarrow> Inr (Some s))
       (validator ''WEBHOOK_URL'' validate_webhook_url)"

definition field_MAX_IMAGE_SIZE_MB :: "inputs \<Rightarrow> error_details + int" where
  "field_MAX_IMAGE_SIZE_MB r =
     and_then (with_default ''MAX_IMAGE_SIZE_MB'' 10 (in_MAX_IMAGE_SIZE_MB r))
       (ge_le ''MAX_IMAGE_SIZE_MB'' 1 50)"

definition field_DEFAULT_IMAGE_QUALITY :: "inputs \<Rightarrow> error_details + int" where
  "field_DEFAULT_IMAGE_QUALITY r =
     and_then (with_default ''DEFAULT_IMAGE_QUALITY'' 85 (in_DEFAULT_IMAGE_QUALITY r))
       (ge_le ''DEFAULT_IMAGE_QUALITY'' 1 100)"

text \<open>The list field is validated on what the settings sources decoded.\<close>

definition field_SUPPORTED_FORMATS :: "string list raw \<Rightarrow> error_details + string list" where
  "field_SUPPORTED_FORMATS formats =
     with_default ''SUPPORTED_FORMATS'' [''JPEG'', ''PNG'', ''WEBP''] formats"

definition field_REQUEST_TIMEOUT :: "inputs \<Rightarrow> error_details + int" where
  "field_REQUEST_TIMEOUT r =
     and_then (with_default ''REQUEST_TIMEOUT'' 30 (in_REQUEST_TIMEOUT r))
       (ge_le ''REQUEST_TIMEOUT'' 5 120)"

definition field_SESSION_TTL :: "inputs \<Rightarrow> error_details + int" where
  "field_SESSION_TTL r =
     and_then (with_default ''SESSION_TTL'' 3600 (in_SESSION_TTL r))
       (ge_le ''SESSION_TTL'' 300 86400)"

definition field_RATE_LIMIT_PER_MINUTE :: "inputs \<Rightarrow> error_details + int" where
  "field_RATE_LIMIT_PER_MINUTE r =
     and_then (with_default ''RATE_LIMIT_PER_MINUTE'' 20 (in_RATE_LIMIT_PER_MINUTE r))
       (ge_le ''RATE_LIMIT_PER_MINUTE'' 1 1000)"

definition field_ENABLE_PHOTOROOM :: "inputs \<Rightarrow> error_details + bool" where
  "field_ENABLE_PHOTOROOM r = with_default ''ENABLE_PHOTOROOM'' True (in_ENABLE_PHOTOROOM r)"

definition field_ENABLE_PILLOW :: "inputs \<Rightarrow> error_details + bool" where
  "field_ENABLE_PILLOW r = with_default ''ENABLE_PILLOW'' True (in_ENABLE_PILLOW r)"

text \<open>
  The toggles are declared before the default processor; each is in \<^verbatim>\<open>values\<close> when
  it validated, and absent when it did not.
\<close>

definition entry :: "string \<Rightarrow> error_details + bool \<Rightarrow> (string \<rightharpoonup> bool)" where
  "entry k x = (case x of Inl e \<Rightarrow> Map.empty | Inr b \<Rightarrow> [k \<mapsto> b])"

definition values_before_DEFAULT_PROCESSOR :: "inputs \<Rightarrow> (string \<rightharpoonup> bool)" where
  "values_before_DEFAULT_PROCESSOR r =
     entry ''ENABLE_PHOTOROOM'' (field_ENABLE_PHOTOROOM r)
       ++ entry ''ENABLE_PILLOW'' (field_ENABLE_PILLOW r)"

definition field_DEFAULT_PROCESSOR :: "inputs \<Rightarrow> error_details + string" where
  "field_DEFAULT_PROCESSOR r =
     and_then
       (and_then (with_default ''DEFAULT_PROCESSOR'' ''photoroom'' (in_DEFAULT_PROCESSOR r))
          (pattern ''DEFAULT_PROCESSOR'' [''photoroom'', ''pillow'']))
       (validator ''DEFAULT_PROCESSOR''
          (validate_default_processor (values_before_DEFAULT_PROCESSOR r)))"

definition field_LOG_LEVEL :: "inputs \<Rightarrow> error_details + string" where
  "field_LOG_LEVEL r =
     and_then (with_default ''LOG_LEVEL'' ''INFO'' (in_LOG_LEVEL r))
       (pattern ''LOG_LEVEL'' [''DEBUG'', ''INFO'', ''WARNING'', ''ERROR'', ''CRITICAL''])"

definition field_ENABLE_FILE_LOGGING :: "inputs \<Rightarrow> error_details + bool" where
  "field_ENABLE_FILE_LOGGING r =
     with_default ''ENABLE_FILE_LOGGING'' True (in_ENABLE_FILE_LOGGING r)"

subsection \<open>Construction\<close>

definition make_settings :: "string \<Rightarrow> string \<Rightarrow> string \<Rightarrow> string \<Rightarrow> int \<Rightarrow> string option \<Rightarrow> int
    \<Rightarrow> int \<Rightarrow> string list \<Rightarrow> int \<Rightarrow> int \<Rightarrow> int \<Rightarrow> bool \<Rightarrow> bool \<Rightarrow> string \<Rightarrow> string \<Rightarrow> bool
    \<Rightarrow> settings" where
  "make_settings tok key sec host port url mb quality formats timeout ttl rate ep el proc lvl fl =
     \<lparr>TELEGRAM_BOT_TOKEN = tok, PHOTOROOM_API_KEY = key, SECRET_TOKEN = sec, HOST = host,
      PORT = port, WEBHOOK_URL = url, MAX_IMAGE_SIZE_MB = mb,
      DEFAULT_IMAGE_QUALITY = quality, SUPPORTED_FORMATS = formats,
      REQUEST_TIMEOUT = timeout, SESSION_TTL = ttl, RATE_LIMIT_PER_MINUTE = rate,
      ENABLE_PHOTOROOM = ep, ENABLE_PILLOW = el, DEFAULT_PROCESSOR = proc,
      LOG_LEVEL = lvl, ENABLE_FILE_LOGGING = fl\<rparr>"

text \<open>
  The settings base class forbids extra inputs (\<^verbatim>\<open>extra='forbid'\<close> is its default).
  The dotenv source passes on every entry with a value whose name is not the name of a
  declared field, and the validation reports each after the errors of the fields.
\<close>

definition field_names :: "string list" where
  "field_names =
     [''TELEGRAM_BOT_TOKEN'', ''PHOTOROOM_API_KEY'', ''SECRET_TOKEN'', ''HOST'', ''PORT'',
      ''WEBHOOK_URL'', ''MAX_IMAGE_SIZE_MB'', ''DEFAULT_IMAGE_QUALITY'', ''SUPPORTED_FORMATS'',
      ''REQUEST_TIMEOUT'', ''SESSION_TTL'', ''RATE_LIMIT_PER_MINUTE'', ''ENABLE_PHOTOROOM'',
      ''ENABLE_PILLOW'', ''DEFAULT_PROCESSOR'', ''LOG_LEVEL'', ''ENABLE_FILE_LOGGING'']"

definition extra_keys :: "inputs \<Rightarrow> string list" where
  "extra_keys r = filter (\<lambda>k. k \<notin> set field_names) (in_other_keys r)"

fun forbid_extra :: "string list \<Rightarrow> validation_error + 'a \<Rightarrow> validation_error + 'a" where
  "forbid_extra ks (Inr s) =
     (if ks = [] then Inr s else Inl (map (\<lambda>k. (k, extra_forbidden)) ks))"
| "forbid_extra ks (Inl es) = Inl (es @ map (\<lambda>k. (k, extra_forbidden)) ks)"

definition model_validate :: "inputs \<Rightarrow> string list raw \<Rightarrow> validation_error + settings" where
  "model_validate r formats =
     forbid_extra (extra_keys r)
     (collect (collect (collect (collect (collect (collect (collect (collect (collect
     (collect (collect (collect (collect (collect (collect (collect (collect
       (Inr make_settings)
       (field_TELEGRAM_BOT_TOKEN r))
       (field_PHOTOROOM_API_KEY r))
       (field_SECRET_TOKEN r))
       (field_HOST r))
       (field_PORT r))
       (field_WEBHOOK_URL r))
       (field_MAX_IMAGE_SIZE_MB r))
       (field_DEFAULT_IMAGE_QUALITY r))
       (field_SUPPORTED_FORMATS formats))
       (field_REQUEST_TIMEOUT r))
       (field_SESSION_TTL r))
       (field_RATE_LIMIT_PER_MINUTE r))
       (field_ENABLE_PHOTOROOM r))
       (field_ENABLE_PILLOW r))
       (field_DEFAULT_PROCESSOR r))
       (field_LOG_LEVEL r))
       (field_ENABLE_FILE_LOGGING r))"

text \<open>
  \<^verbatim>\<open>Settings()\<close>: the settings sources are read first, and an entry of the list field
  that is not JSON makes them raise before any field is validated; otherwise the
  validation runs and either raises its errors or yields the instance.
\<close>

definition Settings :: "inputs \<Rightarrow> construction_error + settings" where
  "Settings r =
     (case in_SUPPORTED_FORMATS r of
        Undecodable \<Rightarrow> Inl (SettingsError ''SUPPORTED_FORMATS'')
      | Decoded formats \<Rightarrow>
          (case model_validate r formats of
             Inl es \<Rightarrow> Inl (ValidationError es)
           | Inr s \<Rightarrow> Inr s))"

subsection \<open>Derived properties\<close>

definition is_development :: "settings \<Rightarrow> bool" where
  "is_development s \<longleftrightarrow>
     HOST s \<in> set [''127.0.0.1'', ''localhost''] \<or> PORT s \<in> set [8000, 8080]"

definition is_production :: "settings \<Rightarrow> bool" where
  "is_production s \<longleftrightarrow> WEBHOOK_URL s \<noteq> None \<and> \<not> is_development s"

definition max_image_size_bytes :: "settings \<Rightarrow> int" where
  "max_image_size_bytes s = MAX_IMAGE_SIZE_MB s * 1024 * 1024"

definition webhook_enabled :: "settings \<Rightarrow> bool" where
  "webhook_enabled s \<longleftrightarrow> WEBHOOK_URL s \<noteq> None \<and> is_production s"


subsection \<open>The process: settings sources, the cached instance, standard output\<close>

text \<open>
  \<open>os_environ\<close> is what the process environment holds and \<open>dotenv_file name\<close> what
  the dotenv file of that name holds (a file that does not exist holds nothing), both
  at the moment of a call; the outside world may change them between calls.
  \<open>g_settings_instance\<close> is the module variable \<^verbatim>\<open>_settings_instance\<close>, \<open>stdout\<close> the
  lines printed so far.
\<close>

datatype printed =
  loaded_ok
  | host_line string
  | port_line int
  | telegram_line bool
  | photoroom_line bool
  | webhook_line "string option"
  | load_error construction_error
  | check_env_hint

record process =
  os_environ :: inputs
  dotenv_file :: "string \<Rightarrow> inputs"
  g_settings_instance :: "settings option"
  stdout :: "printed list"

text \<open>
  The settings sources of a class with \<^verbatim>\<open>env_file = name\<close>: the environment source and
  the dotenv source each read their entries, and an entry of the process environment
  takes priority over an entry of the dotenv file. Each source decodes the list field
  for itself, so an undecodable entry in either makes the sources fail. Undeclared
  entries come from the dotenv file only.
\<close>

fun first_supplied :: "'a raw \<Rightarrow> 'a raw \<Rightarrow> 'a raw" where
  "first_supplied Unset y = y"
| "first_supplied x y = x"

fun first_decoded :: "'a raw decoded \<Rightarrow> 'a raw decoded \<Rightarrow> 'a raw decoded" where
  "first_decoded (Decoded x) (Decoded y) = Decoded (first_supplied x y)"
| "first_decoded x y = Undecodable"

definition settings_sources :: "process \<Rightarrow> string \<Rightarrow> inputs" where
  "settings_sources p env_file =
     (let e = os_environ p; f = dotenv_file p env_file in
      \<lparr>in_TELEGRAM_BOT_TOKEN = first_supplied (in_TELEGRAM_BOT_TOKEN e) (in_TELEGRAM_BOT_TOKEN f),
       in_PHOTOROOM_API_KEY = first_supplied (in_PHOTOROOM_API_KEY e) (in_PHOTOROOM_API_KEY f),
       in_SECRET_TOKEN = first_supplied (in_SECRET_TOKEN e) (in_SECRET_TOKEN f),
       in_HOST = first_supplied (in_HOST e) (in_HOST f),
       in_PORT = first_supplied (in_PORT e) (in_PORT f),
       in_WEBHOOK_URL = first_supplied (in_WEBHOOK_URL e) (in_WEBHOOK_URL f),
       in_MAX_IMAGE_SIZE_MB = first_supplied (in_MAX_IMAGE_SIZE_MB e) (in_MAX_IMAGE_SIZE_MB f),
       in_DEFAULT_IMAGE_QUALITY =
         first_supplied (in_DEFAULT_IMAGE_QUALITY e) (in_DEFAULT_IMAGE_QUALITY f),
       in_SUPPORTED_FORMATS = first_decoded (in_SUPPORTED_FORMATS e) (in_SUPPORTED_FORMATS f),
       in_REQUEST_TIMEOUT = first_supplied (in_REQUEST_TIMEOUT e) (in_REQUEST_TIMEOUT f),
       in_SESSION_TTL = first_supplied (in_SESSION_TTL e) (in_SESSION_TTL f),
       in_RATE_LIMIT_PER_MINUTE =
         first_supplied (in_RATE_LIMIT_PER_MINUTE e) (in_RATE_LIMIT_PER_MINUTE f),
       in_ENABLE_PHOTOROOM = first_supplied (in_ENABLE_PHOTOROOM e) (in_ENABLE_PHOTOROOM f),
       in_ENABLE_PILLOW = first_supplied (in_ENABLE_PILLOW e) (in_ENABLE_PILLOW f),
       in_DEFAULT_PROCESSOR = first_supplied (in_DEFAULT_PROCESSOR e) (in_DEFAULT_PROCESSOR f),
       in_LOG_LEVEL = first_supplied (in_LOG_LEVEL e) (in_LOG_LEVEL f),
       in_ENABLE_FILE_LOGGING =
         first_supplied (in_ENABLE_FILE_LOGGING e) (in_ENABLE_FILE_LOGGING f),
       in_other_keys = in_other_keys f\<rparr>)"

subsection \<open>Import of the module\<close>

text \<open>
  \<^verbatim>\<open>load_dotenv()\<close>, the first statement of the module: every entry of the file
  \<^verbatim>\<open>.env\<close> whose name is not yet set in the process environment is copied there, as
  text; a name that is set keeps its value. (The file is taken to be the one that
  \<^verbatim>\<open>env_file = '.env'\<close> names.)
\<close>

fun copy_decoded :: "'a raw decoded \<Rightarrow> 'a raw decoded \<Rightarrow> 'a raw decoded" where
  "copy_decoded (Decoded Unset) y = y"
| "copy_decoded x y = x"

definition load_dotenv :: "process \<Rightarrow> process" where
  "load_dotenv p =
     (let e = os_environ p; f = dotenv_file p ''.env'' in
      p\<lparr>os_environ :=
        \<lparr>in_TELEGRAM_BOT_TOKEN =
           first_supplied (in_TELEGRAM_BOT_TOKEN e) (in_TELEGRAM_BOT_TOKEN f),
         in_PHOTOROOM_API_KEY = first_supplied (in_PHOTOROOM_API_KEY e) (in_PHOTOROOM_API_KEY f),
         in_SECRET_TOKEN = first_supplied (in_SECRET_TOKEN e) (in_SECRET_TOKEN f),
         in_HOST = first_supplied (in_HOST e) (in_HOST f),
         in_PORT = first_supplied (in_PORT e) (in_PORT f),
         in_WEBHOOK_URL = first_supplied (in_WEBHOOK_URL e) (in_WEBHOOK_URL f),
         in_MAX_IMAGE_SIZE_MB = first_supplied (in_MAX_IMAGE_SIZE_MB e) (in_MAX_IMAGE_SIZE_MB f),
         in_DEFAULT_IMAGE_QUALITY =
           first_supplied (in_DEFAULT_IMAGE_QUALITY e) (in_DEFAULT_IMAGE_QUALITY f),
         in_SUPPORTED_FORMATS = copy_decoded (in_SUPPORTED_FORMATS e) (in_SUPPORTED_FORMATS f),
         in_REQUEST_TIMEOUT = first_supplied (in_REQUEST_TIMEOUT e) (in_REQUEST_TIMEOUT f),
         in_SESSION_TTL = first_supplied (in_SESSION_TTL e) (in_SESSION_TTL f),
         in_RATE_LIMIT_PER_MINUTE =
           first_supplied (in_RATE_LIMIT_PER_MINUTE e) (in_RATE_LIMIT_PER_MINUTE f),
         in_ENABLE_PHOTOROOM = first_supplied (in_ENABLE_PHOTOROOM e) (in_ENABLE_PHOTOROOM f),
         in_ENABLE_PILLOW = first_supplied (in_ENABLE_PILLOW e) (in_ENABLE_PILLOW f),
         in_DEFAULT_PROCESSOR =
           first_supplied (in_DEFAULT_PROCESSOR e) (in_DEFAULT_PROCESSOR f),
         in_LOG_LEVEL = first_supplied (in_LOG_LEVEL e) (in_LOG_LEVEL f),
         in_ENABLE_FILE_LOGGING =
           first_supplied (in_ENABLE_FILE_LOGGING e) (in_ENABLE_FILE_LOGGING f),
         in_other_keys = in_other_keys e @ in_other_keys f\<rparr>\<rparr>)"

text \<open>
  Importing the module runs \<^verbatim>\<open>load_dotenv()\<close> and, among the definitions,
  \<^verbatim>\<open>_settings_instance = None\<close>.
\<close>

definition import_module :: "process \<Rightarrow> process" where
  "import_module p = (load_dotenv p)\<lparr>g_settings_instance := None\<rparr>"

subsection \<open>The accessor, reload and the test variant\<close>

text \<open>
  The summary printed after a successful load: a fixed first line, host, port, whether
  each secret is truthy, and the webhook URL when it is truthy (\<open>None\<close> stands for the
  line that reports local mode).
\<close>

definition summary :: "settings \<Rightarrow> printed list" where
  "summary s =
     [loaded_ok,
      host_line (HOST s),
      port_line (PORT s),
      telegram_line (TELEGRAM_BOT_TOKEN s \<noteq> []),
      photoroom_line (PHOTOROOM_API_KEY s \<noteq> []),
      webhook_line (if truthy (WEBHOOK_URL s) then WEBHOOK_URL s else None)]"

text \<open>
  \<^verbatim>\<open>get_settings\<close>: when \<^verbatim>\<open>_settings_instance is None\<close>, the class is instantiated
  inside \<^verbatim>\<open>try\<close>. On success the instance is assigned to the module variable and
  the summary is printed. On an exception nothing has been assigned; the handler prints
  the error and a hint, and re-raises. When an instance is cached the function only
  returns it.
\<close>

definition get_settings :: "process \<Rightarrow> (construction_error + settings) \<times> process" where
  "get_settings p =
     (case g_settings_instance p of
        None \<Rightarrow>
          (case Settings (settings_sources p ''.env'') of
             Inr s \<Rightarrow>
               (Inr s, p\<lparr>g_settings_instance := Some s, stdout := stdout p @ summary s\<rparr>)
           | Inl e \<Rightarrow>
               (Inl e, p\<lparr>stdout := stdout p @ [load_error e, check_env_hint]\<rparr>))
      | Some s \<Rightarrow> (Inr s, p))"

text \<open>\<^verbatim>\<open>reload_settings\<close> sets the module variable to \<^verbatim>\<open>None\<close> and calls the accessor.\<close>

definition reload_settings :: "process \<Rightarrow> (construction_error + settings) \<times> process" where
  "reload_settings p = get_settings (p\<lparr>g_settings_instance := None\<rparr>)"


section \<open>Notions used to state the properties\<close>

text \<open>\<open>reports e res\<close>: the validation failed and \<open>e\<close> is among the errors it raised.\<close>

definition reports :: "error_details \<Rightarrow> validation_error + 'a \<Rightarrow> bool" where
  "reports e res = (case res of Inl es \<Rightarrow> e \<in> set es | Inr s \<Rightarrow> False)"

text \<open>
  \<open>identifies err name\<close>: the raised error names \<open>name\<close>, as the field a settings source
  failed on or as the location of one of the validation errors.
\<close>

definition identifies :: "construction_error \<Rightarrow> string \<Rightarrow> bool" where
  "identifies err name =
     (case err of
        SettingsError n \<Rightarrow> n = name
      | ValidationError es \<Rightarrow> name \<in> set (map fst es))"

text \<open>
  Every field other than \<^verbatim>\<open>DEFAULT_PROCESSOR\<close> validates; for the list field this
  includes that its entry can be decoded.
\<close>

definition other_fields_valid :: "inputs \<Rightarrow> bool" where
  "other_fields_valid r \<longleftrightarrow>
     \<not> isl (field_TELEGRAM_BOT_TOKEN r) \<and> \<not> isl (field_PHOTOROOM_API_KEY r)
     \<and> \<not> isl (field_SECRET_TOKEN r) \<and> \<not> isl (field_HOST r) \<and> \<not> isl (field_PORT r)
     \<and> \<not> isl (field_WEBHOOK_URL r) \<and> \<not> isl (field_MAX_IMAGE_SIZE_MB r)
     \<and> \<not> isl (field_DEFAULT_IMAGE_QUALITY r)
     \<and> (case in_SUPPORTED_FORMATS r of
          Undecodable \<Rightarrow> False
        | Decoded formats \<Rightarrow> \<not> isl (field_SUPPORTED_FORMATS formats))
     \<and> \<not> isl (field_REQUEST_TIMEOUT r) \<and> \<not> isl (field_SESSION_TTL r)
     \<and> \<not> isl (field_RATE_LIMIT_PER_MINUTE r) \<and> \<not> isl (field_ENABLE_PHOTOROOM r)
     \<and> \<not> isl (field_ENABLE_PILLOW r) \<and> \<not> isl (field_LOG_LEVEL r)
     \<and> \<not> isl (field_ENABLE_FILE_LOGGING r)"

text \<open>
  A numeric field with the range \<open>[lo, hi]\<close>. A supplied value outside the range makes
  the construction fail, and with a validation error that names the field whenever the
  settings sources get as far as the validation (the entry of the list field can be
  decoded). A supplied value inside the range causes no error that names the field, and
  an instance that is constructed stores exactly that value.
\<close>

definition range_checked ::
    "(inputs \<Rightarrow> int raw) \<Rightarrow> (settings \<Rightarrow> int) \<Rightarrow> string \<Rightarrow> int \<Rightarrow> int \<Rightarrow> bool" where
  "range_checked supplied stored name lo hi \<longleftrightarrow>
     (\<forall>r v. supplied r = Given v \<longrightarrow>
        (if v < lo \<or> hi < v
         then (\<exists>err. Settings r = Inl err)
              \<and> (in_SUPPORTED_FORMATS r \<noteq> Undecodable \<longrightarrow>
                   (\<exists>es t. Settings r = Inl (ValidationError es) \<and> (name, t) \<in> set es))
         else (\<forall>err. Settings r = Inl err \<longrightarrow> \<not> identifies err name)
              \<and> (\<forall>s. Settings r = Inr s \<longrightarrow> stored s = v)))"

text \<open>
  A smallest valid configuration: the two secrets as in the \<^verbatim>\<open>example\<close> of their
  field declarations, nothing else supplied; and the instance it constructs.
\<close>

definition example_inputs :: inputs where
  "example_inputs =
     \<lparr>in_TELEGRAM_BOT_TOKEN = Given ''1234567890:ABCDEFGHIJKLMNOPQRSTUVWXYZabcdefghi'',
      in_PHOTOROOM_API_KEY = Given ''photoroom_apikey_1234567890abcdef'',
      in_SECRET_TOKEN = Unset, in_HOST = Unset, in_PORT = Unset, in_WEBHOOK_URL = Unset,
      in_MAX_IMAGE_SIZE_MB = Unset, in_DEFAULT_IMAGE_QUALITY = Unset,
      in_SUPPORTED_FORMATS = Decoded Unset, in_REQUEST_TIMEOUT = Unset,
      in_SESSION_TTL = Unset, in_RATE_LIMIT_PER_MINUTE = Unset, in_ENABLE_PHOTOROOM = Unset,
      in_ENABLE_PILLOW = Unset, in_DEFAULT_PROCESSOR = Unset, in_LOG_LEVEL = Unset,
      in_ENABLE_FILE_LOGGING = Unset, in_other_keys = []\<rparr>"

definition example_settings :: settings where
  "example_settings =
     \<lparr>TELEGRAM_BOT_TOKEN = ''1234567890:ABCDEFGHIJKLMNOPQRSTUVWXYZabcdefghi'',
      PHOTOROOM_API_KEY = ''photoroom_apikey_1234567890abcdef'',
      SECRET_TOKEN = ''my_secret_token_123'', HOST = ''127.0.0.1'', PORT = 8000,
      WEBHOOK_URL = None, MAX_IMAGE_SIZE_MB = 10, DEFAULT_IMAGE_QUALITY = 85,
      SUPPORTED_FORMATS = [''JPEG'', ''PNG'', ''WEBP''], REQUEST_TIMEOUT = 30,
      SESSION_TTL = 3600, RATE_LIMIT_PER_MINUTE = 20, ENABLE_PHOTOROOM = True,
      ENABLE_PILLOW = True, DEFAULT_PROCESSOR = ''photoroom'', LOG_LEVEL = ''INFO'',
      ENABLE_FILE_LOGGING = True\<rparr>"

text \<open>
  An environment or file without entries; a process whose only source is its
  environment; and a set of dotenv files of which only the named one has entries.
\<close>

definition no_entries :: inputs where
  "no_entries =
     \<lparr>in_TELEGRAM_BOT_TOKEN = Unset, in_PHOTOROOM_API_KEY = Unset, in_SECRET_TOKEN = Unset,
      in_HOST = Unset, in_PORT = Unset, in_WEBHOOK_URL = Unset, in_MAX_IMAGE_SIZE_MB = Unset,
      in_DEFAULT_IMAGE_QUALITY = Unset, in_SUPPORTED_FORMATS = Decoded Unset,
      in_REQUEST_TIMEOUT = Unset, in_SESSION_TTL = Unset, in_RATE_LIMIT_PER_MINUTE = Unset,
      in_ENABLE_PHOTOROOM = Unset, in_ENABLE_PILLOW = Unset, in_DEFAULT_PROCESSOR = Unset,
      in_LOG_LEVEL = Unset, in_ENABLE_FILE_LOGGING = Unset, in_other_keys = []\<rparr>"

definition example_process :: "inputs \<Rightarrow> settings option \<Rightarrow> process" where
  "example_process env cached =
     \<lparr>os_environ = env, dotenv_file = (\<lambda>name. no_entries), g_settings_instance = cached,
      stdout = []\<rparr>"

definition only_file :: "string \<Rightarrow> inputs \<Rightarrow> string \<Rightarrow> inputs" where
  "only_file name entries = (\<lambda>n. if n = name then entries else no_entries)"

text \<open>
  A run of the module. Before the import the environment sets nothing and the file
  \<^verbatim>\<open>.env\<close> holds the two secrets and \<^verbatim>\<open>PORT=8443\<close>. The module is imported, the accessor
  is called once, and then the file is rewritten to \<^verbatim>\<open>PORT=9000\<close>.
\<close>

definition before_import :: process where
  "before_import =
     \<lparr>os_environ = no_entries,
      dotenv_file = only_file ''.env'' (example_inputs\<lparr>in_PORT := Given 8443\<rparr>),
      g_settings_instance = None, stdout = []\<rparr>"

definition imported :: process where
  "imported = import_module before_import"

definition file_rewritten :: process where
  "file_rewritten =
     (snd (get_settings imported))
       \<lparr>dotenv_file := only_file ''.env'' (example_inputs\<lparr>in_PORT := Given 9000\<rparr>)\<rparr>"


section \<open>How a construction succeeds and how it fails\<close>

lemmas field_defs =
  field_TELEGRAM_BOT_TOKEN_def field_PHOTOROOM_API_KEY_def field_SECRET_TOKEN_def
  field_HOST_def field_PORT_def field_WEBHOOK_URL_def field_MAX_IMAGE_SIZE_MB_def
  field_DEFAULT_IMAGE_QUALITY_def field_SUPPORTED_FORMATS_def field_REQUEST_TIMEOUT_def
  field_SESSION_TTL_def field_RATE_LIMIT_PER_MINUTE_def field_ENABLE_PHOTOROOM_def
  field_ENABLE_PILLOW_def field_DEFAULT_PROCESSOR_def field_LOG_LEVEL_def
  field_ENABLE_FILE_LOGGING_def

lemmas check_defs =
  ge_le_def pattern_def validator_def validate_telegram_token_def validate_photoroom_key_def
  validate_webhook_url_def validate_default_processor_def truthy_def startswith_def
  dict_get_def values_before_DEFAULT_PROCESSOR_def entry_def extra_keys_def field_names_def

lemma collect_Inr_iff:
  "collect r x = Inr y \<longleftrightarrow> (\<exists>f v. r = Inr f \<and> x = Inr v \<and> y = f v)"
  by (cases r; cases x) auto

lemma reports_collect: "reports e (collect r x) \<longleftrightarrow> reports e r \<or> x = Inl e"
  by (cases r; cases x) (auto simp: reports_def)

lemma reports_Inr: "\<not> reports e (Inr f)"
  by (simp add: reports_def)

lemma Inl_reported: "(\<exists>es. res = Inl es \<and> e \<in> set es) \<longleftrightarrow> reports e res"
  by (cases res) (auto simp: reports_def)

lemma not_isl_collect: "\<not> isl (collect r x) \<longleftrightarrow> \<not> isl r \<and> \<not> isl x"
  by (cases r; cases x) auto

lemma not_isl_ex: "\<not> isl x \<longleftrightarrow> (\<exists>v. x = Inr v)"
  by (cases x) auto

lemma forbid_extra_Inr_iff: "forbid_extra ks res = Inr s \<longleftrightarrow> ks = [] \<and> res = Inr s"
  by (cases res) auto

lemma reports_forbid_extra:
  "reports e (forbid_extra ks res) \<longleftrightarrow> reports e res \<or> e \<in> (\<lambda>k. (k, extra_forbidden)) ` set ks"
  by (cases res) (auto simp: reports_def)

lemma not_isl_forbid_extra: "\<not> isl (forbid_extra ks res) \<longleftrightarrow> ks = [] \<and> \<not> isl res"
  by (cases res) auto

text \<open>The errors of a failed validation are the errors of its fields and of the extra keys.\<close>

lemma reports_model_validate:
  "reports e (model_validate r formats) \<longleftrightarrow>
     field_TELEGRAM_BOT_TOKEN r = Inl e \<or> field_PHOTOROOM_API_KEY r = Inl e
     \<or> field_SECRET_TOKEN r = Inl e \<or> field_HOST r = Inl e \<or> field_PORT r = Inl e
     \<or> field_WEBHOOK_URL r = Inl e \<or> field_MAX_IMAGE_SIZE_MB r = Inl e
     \<or> field_DEFAULT_IMAGE_QUALITY r = Inl e \<or> field_SUPPORTED_FORMATS formats = Inl e
     \<or> field_REQUEST_TIMEOUT r = Inl e \<or> field_SESSION_TTL r = Inl e
     \<or> field_RATE_LIMIT_PER_MINUTE r = Inl e \<or> field_ENABLE_PHOTOROOM r = Inl e
     \<or> field_ENABLE_PILLOW r = Inl e \<or> field_DEFAULT_PROCESSOR r = Inl e
     \<or> field_LOG_LEVEL r = Inl e \<or> field_ENABLE_FILE_LOGGING r = Inl e
     \<or> e \<in> (\<lambda>k. (k, extra_forbidden)) ` set (extra_keys r)"
  unfolding model_validate_def
  by (simp only: reports_forbid_extra reports_collect reports_Inr simp_thms disj_assoc)

text \<open>
  The construction fails as soon as one field has an error; the error is among those the
  validation raises when the settings sources can be read.
\<close>

lemma field_fails:
  assumes "field_TELEGRAM_BOT_TOKEN r = Inl e \<or> field_PHOTOROOM_API_KEY r = Inl e
     \<or> field_SECRET_TOKEN r = Inl e \<or> field_HOST r = Inl e \<or> field_PORT r = Inl e
     \<or> field_WEBHOOK_URL r = Inl e \<or> field_MAX_IMAGE_SIZE_MB r = Inl e
     \<or> field_DEFAULT_IMAGE_QUALITY r = Inl e
     \<or> field_REQUEST_TIMEOUT r = Inl e \<or> field_SESSION_TTL r = Inl e
     \<or> field_RATE_LIMIT_PER_MINUTE r = Inl e \<or> field_ENABLE_PHOTOROOM r = Inl e
     \<or> field_ENABLE_PILLOW r = Inl e \<or> field_DEFAULT_PROCESSOR r = Inl e
     \<or> field_LOG_LEVEL r = Inl e \<or> field_ENABLE_FILE_LOGGING r = Inl e"
  shows "(\<exists>err. Settings r = Inl err)
     \<and> (in_SUPPORTED_FORMATS r \<noteq> Undecodable \<longrightarrow>
          (\<exists>es. Settings r = Inl (ValidationError es) \<and> e \<in> set es))"
proof (cases "in_SUPPORTED_FORMATS r")
  case Undecodable
  then show ?thesis by (simp add: Settings_def)
next
  case (Decoded formats)
  from assms have "reports e (model_validate r formats)"
    by (simp only: reports_model_validate) blast
  then obtain es where "model_validate r formats = Inl es" and "e \<in> set es"
    by (auto simp: Inl_reported [symmetric])
  with Decoded show ?thesis by (simp add: Settings_def)
qed

text \<open>
  An instance is constructed exactly when the list entry can be decoded, every field
  validates to the value the instance stores, and there is no extra key.
\<close>

lemma model_validate_Inr_iff:
  "model_validate r formats = Inr s \<longleftrightarrow>
     field_TELEGRAM_BOT_TOKEN r = Inr (TELEGRAM_BOT_TOKEN s)
     \<and> field_PHOTOROOM_API_KEY r = Inr (PHOTOROOM_API_KEY s)
     \<and> field_SECRET_TOKEN r = Inr (SECRET_TOKEN s)
     \<and> field_HOST r = Inr (HOST s)
     \<and> field_PORT r = Inr (PORT s)
     \<and> field_WEBHOOK_URL r = Inr (WEBHOOK_URL s)
     \<and> field_MAX_IMAGE_SIZE_MB r = Inr (MAX_IMAGE_SIZE_MB s)
     \<and> field_DEFAULT_IMAGE_QUALITY r = Inr (DEFAULT_IMAGE_QUALITY s)
     \<and> field_SUPPORTED_FORMATS formats = Inr (SUPPORTED_FORMATS s)
     \<and> field_REQUEST_TIMEOUT r = Inr (REQUEST_TIMEOUT s)
     \<and> field_SESSION_TTL r = Inr (SESSION_TTL s)
     \<and> field_RATE_LIMIT_PER_MINUTE r = Inr (RATE_LIMIT_PER_MINUTE s)
     \<and> field_ENABLE_PHOTOROOM r = Inr (ENABLE_PHOTOROOM s)
     \<and> field_ENABLE_PILLOW r = Inr (ENABLE_PILLOW s)
     \<and> field_DEFAULT_PROCESSOR r = Inr (DEFAULT_PROCESSOR s)
     \<and> field_LOG_LEVEL r = Inr (LOG_LEVEL s)
     \<and> field_ENABLE_FILE_LOGGING r = Inr (ENABLE_FILE_LOGGING s)
     \<and> extra_keys r = []"
  unfolding model_validate_def
  apply (cases s)
  apply (simp only: forbid_extra_Inr_iff collect_Inr_iff)
  apply (auto simp: make_settings_def)
  done

lemma Settings_Inr_iff:
  "Settings r = Inr s \<longleftrightarrow>
     field_TELEGRAM_BOT_TOKEN r = Inr (TELEGRAM_BOT_TOKEN s)
     \<and> field_PHOTOROOM_API_KEY r = Inr (PHOTOROOM_API_KEY s)
     \<and> field_SECRET_TOKEN r = Inr (SECRET_TOKEN s)
     \<and> field_HOST r = Inr (HOST s)
     \<and> field_PORT r = Inr (PORT s)
     \<and> field_WEBHOOK_URL r = Inr (WEBHOOK_URL s)
     \<and> field_MAX_IMAGE_SIZE_MB r = Inr (MAX_IMAGE_SIZE_MB s)
     \<and> field_DEFAULT_IMAGE_QUALITY r = Inr (DEFAULT_IMAGE_QUALITY s)
     \<and> (\<exists>formats. in_SUPPORTED_FORMATS r = Decoded formats
          \<and> field_SUPPORTED_FORMATS formats = Inr (SUPPORTED_FORMATS s))
     \<and> field_REQUEST_TIMEOUT r = Inr (REQUEST_TIMEOUT s)
     \<and> field_SESSION_TTL r = Inr (SESSION_TTL s)
     \<and> field_RATE_LIMIT_PER_MINUTE r = Inr (RATE_LIMIT_PER_MINUTE s)
     \<and> field_ENABLE_PHOTOROOM r = Inr (ENABLE_PHOTOROOM s)
     \<and> field_ENABLE_PILLOW r = Inr (ENABLE_PILLOW s)
     \<and> field_DEFAULT_PROCESSOR r = Inr (DEFAULT_PROCESSOR s)
     \<and> field_LOG_LEVEL r = Inr (LOG_LEVEL s)
     \<and> field_ENABLE_FILE_LOGGING r = Inr (ENABLE_FILE_LOGGING s)
     \<and> extra_keys r = []"
proof (cases "in_SUPPORTED_FORMATS r")
  case Undecodable
  then show ?thesis by (simp add: Settings_def)
next
  case (Decoded formats)
  then have "Settings r = Inr s \<longleftrightarrow> model_validate r formats = Inr s"
    by (simp add: Settings_def split: sum.splits)
  with Decoded show ?thesis
    by (simp only: model_validate_Inr_iff decoded.inject simp_thms ex_simps)
qed

lemma Settings_succeeds:
  assumes "\<not> isl (field_TELEGRAM_BOT_TOKEN r)" "\<not> isl (field_PHOTOROOM_API_KEY r)"
    "\<not> isl (field_SECRET_TOKEN r)" "\<not> isl (field_HOST r)" "\<not> isl (field_PORT r)"
    "\<not> isl (field_WEBHOOK_URL r)" "\<not> isl (field_MAX_IMAGE_SIZE_MB r)"
    "\<not> isl (field_DEFAULT_IMAGE_QUALITY r)"
    "in_SUPPORTED_FORMATS r = Decoded formats" "\<not> isl (field_SUPPORTED_FORMATS formats)"
    "\<not> isl (field_REQUEST_TIMEOUT r)" "\<not> isl (field_SESSION_TTL r)"
    "\<not> isl (field_RATE_LIMIT_PER_MINUTE r)" "\<not> isl (field_ENABLE_PHOTOROOM r)"
    "\<not> isl (field_ENABLE_PILLOW r)" "\<not> isl (field_DEFAULT_PROCESSOR r)"
    "\<not> isl (field_LOG_LEVEL r)" "\<not> isl (field_ENABLE_FILE_LOGGING r)"
    "extra_keys r = []"
  shows "\<exists>s. Settings r = Inr s"
proof -
  from assms have "\<not> isl (model_validate r formats)"
    unfolding model_validate_def
    by (simp only: not_isl_forbid_extra not_isl_collect sum.disc simp_thms)
  then obtain s where "model_validate r formats = Inr s"
    by (auto simp: not_isl_ex)
  with assms(9) show ?thesis by (simp add: Settings_def)
qed

lemma Settings_example: "Settings example_inputs = Inr example_settings"
  by (simp add: Settings_Inr_iff example_inputs_def example_settings_def field_defs check_defs)

text \<open>An error of a field names that field, and an extra key is not the name of a field.\<close>

lemma required_loc: "required name x = Inl (n, t) \<Longrightarrow> n = name"
  by (cases x) auto

lemma with_default_loc: "with_default name d x = Inl (n, t) \<Longrightarrow> n = name"
  by (cases x) auto

lemma ge_le_loc: "ge_le name lo hi v = Inl (n, t) \<Longrightarrow> n = name"
  by (auto simp: ge_le_def split: if_splits)

lemma pattern_loc: "pattern name alts v = Inl (n, t) \<Longrightarrow> n = name"
  by (auto simp: pattern_def split: if_splits)

lemma validator_loc: "validator name f v = Inl (n, t) \<Longrightarrow> n = name"
  by (auto simp: validator_def split: sum.splits)

lemma and_then_Inl:
  "and_then x f = Inl e \<longleftrightarrow> x = Inl e \<or> (\<exists>v. x = Inr v \<and> f v = Inl e)"
  by (cases x) auto

lemma field_locs:
  "field_TELEGRAM_BOT_TOKEN r = Inl (n, t) \<Longrightarrow> n = ''TELEGRAM_BOT_TOKEN''"
  "field_PHOTOROOM_API_KEY r = Inl (n, t) \<Longrightarrow> n = ''PHOTOROOM_API_KEY''"
  "field_SECRET_TOKEN r = Inl (n, t) \<Longrightarrow> n = ''SECRET_TOKEN''"
  "field_HOST r = Inl (n, t) \<Longrightarrow> n = ''HOST''"
  "field_PORT r = Inl (n, t) \<Longrightarrow> n = ''PORT''"
  "field_WEBHOOK_URL r = Inl (n, t) \<Longrightarrow> n = ''WEBHOOK_URL''"
  "field_MAX_IMAGE_SIZE_MB r = Inl (n, t) \<Longrightarrow> n = ''MAX_IMAGE_SIZE_MB''"
  "field_DEFAULT_IMAGE_QUALITY r = Inl (n, t) \<Longrightarrow> n = ''DEFAULT_IMAGE_QUALITY''"
  "field_SUPPORTED_FORMATS formats = Inl (n, t) \<Longrightarrow> n = ''SUPPORTED_FORMATS''"
  "field_REQUEST_TIMEOUT r = Inl (n, t) \<Longrightarrow> n = ''REQUEST_TIMEOUT''"
  "field_SESSION_TTL r = Inl (n, t) \<Longrightarrow> n = ''SESSION_TTL''"
  "field_RATE_LIMIT_PER_MINUTE r = Inl (n, t) \<Longrightarrow> n = ''RATE_LIMIT_PER_MINUTE''"
  "field_ENABLE_PHOTOROOM r = Inl (n, t) \<Longrightarrow> n = ''ENABLE_PHOTOROOM''"
  "field_ENABLE_PILLOW r = Inl (n, t) \<Longrightarrow> n = ''ENABLE_PILLOW''"
  "field_DEFAULT_PROCESSOR r = Inl (n, t) \<Longrightarrow> n = ''DEFAULT_PROCESSOR''"
  "field_LOG_LEVEL r = Inl (n, t) \<Longrightarrow> n = ''LOG_LEVEL''"
  "field_ENABLE_FILE_LOGGING r = Inl (n, t) \<Longrightarrow> n = ''ENABLE_FILE_LOGGING''"
  by (auto simp: field_defs and_then_Inl
      dest: required_loc with_default_loc ge_le_loc pattern_loc validator_loc
      split: raw.splits)

lemma extra_keys_undeclared: "k \<in> set (extra_keys r) \<Longrightarrow> k \<notin> set field_names"
  by (simp add: extra_keys_def)

lemma identifies_Settings:
  assumes "Settings r = Inl err" and "identifies err name"
  shows "name = ''SUPPORTED_FORMATS''
     \<or> (\<exists>formats t. in_SUPPORTED_FORMATS r = Decoded formats
          \<and> reports (name, t) (model_validate r formats))"
proof (cases "in_SUPPORTED_FORMATS r")
  case Undecodable
  with assms show ?thesis
    by (auto simp: Settings_def identifies_def)
next
  case (Decoded formats)
  with assms obtain es where "model_validate r formats = Inl es" and "name \<in> set (map fst es)"
    by (auto simp: Settings_def identifies_def split: sum.splits)
  then obtain t where "reports (name, t) (model_validate r formats)"
    by (auto simp: reports_def)
  with Decoded show ?thesis by blast
qed

section \<open>The default processor and its toggle\<close>

lemma photoroom_off:
  assumes "in_DEFAULT_PROCESSOR r = Unset \<or> in_DEFAULT_PROCESSOR r = Given ''photoroom''"
    and "in_ENABLE_PHOTOROOM r = Given False"
  shows "field_DEFAULT_PROCESSOR r = Inl (''DEFAULT_PROCESSOR'', value_error photoroom_disabled)"
  using assms
  by (auto simp: field_DEFAULT_PROCESSOR_def field_ENABLE_PHOTOROOM_def field_ENABLE_PILLOW_def
      pattern_def validator_def validate_default_processor_def dict_get_def
      values_before_DEFAULT_PROCESSOR_def entry_def map_add_def split: sum.splits option.splits)

lemma pillow_off:
  assumes "in_DEFAULT_PROCESSOR r = Given ''pillow''"
    and "in_ENABLE_PILLOW r = Given False"
  shows "field_DEFAULT_PROCESSOR r = Inl (''DEFAULT_PROCESSOR'', value_error pillow_disabled)"
  using assms
  by (auto simp: field_DEFAULT_PROCESSOR_def field_ENABLE_PHOTOROOM_def field_ENABLE_PILLOW_def
      pattern_def validator_def validate_default_processor_def dict_get_def
      values_before_DEFAULT_PROCESSOR_def entry_def map_add_def split: sum.splits option.splits)

lemma photoroom_on:
  assumes "in_DEFAULT_PROCESSOR r = Unset \<or> in_DEFAULT_PROCESSOR r = Given ''photoroom''"
    and "in_ENABLE_PHOTOROOM r = Unset \<or> in_ENABLE_PHOTOROOM r = Given True"
  shows "field_DEFAULT_PROCESSOR r = Inr ''photoroom''"
  using assms
  by (auto simp: field_DEFAULT_PROCESSOR_def field_ENABLE_PHOTOROOM_def field_ENABLE_PILLOW_def
      pattern_def validator_def validate_default_processor_def dict_get_def
      values_before_DEFAULT_PROCESSOR_def entry_def map_add_def split: sum.splits option.splits)

lemma pillow_on:
  assumes "in_DEFAULT_PROCESSOR r = Given ''pillow''"
    and "in_ENABLE_PILLOW r = Unset \<or> in_ENABLE_PILLOW r = Given True"
  shows "field_DEFAULT_PROCESSOR r = Inr ''pillow''"
  using assms
  by (auto simp: field_DEFAULT_PROCESSOR_def field_ENABLE_PHOTOROOM_def field_ENABLE_PILLOW_def
      pattern_def validator_def validate_default_processor_def dict_get_def
      values_before_DEFAULT_PROCESSOR_def entry_def map_add_def split: sum.splits option.splits)

text \<open>
  Claim C1, as stated, fails in its second half: with the default processor and both
  toggles at their defaults and every field valid, the construction still fails when
  the dotenv file has an entry \<^verbatim>\<open>debug\<close>, which is not a declared field.
\<close>

theorem default_processor_extra_key_counterexample:
  "in_DEFAULT_PROCESSOR (example_inputs\<lparr>in_other_keys := [''debug'']\<rparr>) = Unset
   \<and> in_ENABLE_PHOTOROOM (example_inputs\<lparr>in_other_keys := [''debug'']\<rparr>) = Unset
   \<and> other_fields_valid (example_inputs\<lparr>in_other_keys := [''debug'']\<rparr>)
   \<and> Settings (example_inputs\<lparr>in_other_keys := [''debug'']\<rparr>)
       = Inl (ValidationError [(''debug'', extra_forbidden)])"
  by (simp add: example_inputs_def other_fields_valid_def Settings_def model_validate_def
      field_defs check_defs)

text \<open>
  Claim C1, amended. A construction in which the default processor is \<^verbatim>\<open>photoroom\<close>
  (supplied, or by default) and \<^verbatim>\<open>ENABLE_PHOTOROOM\<close> is supplied as false fails, and
  with the validator's error on \<^verbatim>\<open>DEFAULT_PROCESSOR\<close> when the settings sources can
  be read; so does one in which it is \<^verbatim>\<open>pillow\<close> and \<^verbatim>\<open>ENABLE_PILLOW\<close> is supplied as
  false. When the toggle of the chosen processor is true (supplied, or by default),
  every other field validates and the dotenv file has no entry for an undeclared name,
  the construction succeeds.
\<close>

theorem default_processor_toggle:
  "(((in_DEFAULT_PROCESSOR r = Unset \<or> in_DEFAULT_PROCESSOR r = Given ''photoroom'')
       \<and> in_ENABLE_PHOTOROOM r = Given False)
      \<longrightarrow> (\<exists>err. Settings r = Inl err)
          \<and> (in_SUPPORTED_FORMATS r \<noteq> Undecodable \<longrightarrow>
               (\<exists>es. Settings r = Inl (ValidationError es)
                  \<and> (''DEFAULT_PROCESSOR'', value_error photoroom_disabled) \<in> set es)))
   \<and> ((in_DEFAULT_PROCESSOR r = Given ''pillow'' \<and> in_ENABLE_PILLOW r = Given False)
      \<longrightarrow> (\<exists>err. Settings r = Inl err)
          \<and> (in_SUPPORTED_FORMATS r \<noteq> Undecodable \<longrightarrow>
               (\<exists>es. Settings r = Inl (ValidationError es)
                  \<and> (''DEFAULT_PROCESSOR'', value_error pillow_disabled) \<in> set es)))
   \<and> ((((in_DEFAULT_PROCESSOR r = Unset \<or> in_DEFAULT_PROCESSOR r = Given ''photoroom'')
         \<and> (in_ENABLE_PHOTOROOM r = Unset \<or> in_ENABLE_PHOTOROOM r = Given True))
        \<or> (in_DEFAULT_PROCESSOR r = Given ''pillow''
         \<and> (in_ENABLE_PILLOW r = Unset \<or> in_ENABLE_PILLOW r = Given True)))
       \<and> other_fields_valid r \<and> extra_keys r = []
      \<longrightarrow> (\<exists>s. Settings r = Inr s))"
  (is "(?photoroom_off \<longrightarrow> ?photoroom_error) \<and> (?pillow_off \<longrightarrow> ?pillow_error)
     \<and> (?chosen_on \<and> _ \<and> _ \<longrightarrow> ?built)")
proof -
  have a: ?photoroom_error if ?photoroom_off
  proof -
    from that
    have "field_DEFAULT_PROCESSOR r = Inl (''DEFAULT_PROCESSOR'', value_error photoroom_disabled)"
      by (simp add: photoroom_off)
    then show ?thesis by (intro field_fails) simp
  qed
  have b: ?pillow_error if ?pillow_off
  proof -
    from that
    have "field_DEFAULT_PROCESSOR r = Inl (''DEFAULT_PROCESSOR'', value_error pillow_disabled)"
      by (simp add: pillow_off)
    then show ?thesis by (intro field_fails) simp
  qed
  have c: ?built if on: ?chosen_on and valid: "other_fields_valid r" and none: "extra_keys r = []"
  proof -
    from on have proc: "\<not> isl (field_DEFAULT_PROCESSOR r)"
      using photoroom_on [of r] pillow_on [of r] by auto
    from valid obtain formats where "in_SUPPORTED_FORMATS r = Decoded formats"
      and "\<not> isl (field_SUPPORTED_FORMATS formats)"
      by (auto simp: other_fields_valid_def split: decoded.splits)
    with valid proc none show ?thesis
      by (intro Settings_succeeds [where formats = formats])
        (simp_all add: other_fields_valid_def)
  qed
  from a b c show ?thesis by blast
qed

theorem default_processor_toggle_witness:
  "(\<exists>es. Settings (example_inputs\<lparr>in_ENABLE_PHOTOROOM := Given False\<rparr>)
         = Inl (ValidationError es)
       \<and> (''DEFAULT_PROCESSOR'', value_error photoroom_disabled) \<in> set es)
   \<and> (\<exists>es. Settings (example_inputs\<lparr>in_DEFAULT_PROCESSOR := Given ''pillow'',
                                      in_ENABLE_PILLOW := Given False\<rparr>)
         = Inl (ValidationError es)
       \<and> (''DEFAULT_PROCESSOR'', value_error pillow_disabled) \<in> set es)
   \<and> (\<exists>s. Settings (example_inputs\<lparr>in_DEFAULT_PROCESSOR := Given ''pillow'',
                                     in_ENABLE_PHOTOROOM := Given False\<rparr>) = Inr s)"
  using default_processor_toggle [of "example_inputs\<lparr>in_ENABLE_PHOTOROOM := Given False\<rparr>"]
    default_processor_toggle [of "example_inputs\<lparr>in_DEFAULT_PROCESSOR := Given ''pillow'',
                                      in_ENABLE_PILLOW := Given False\<rparr>"]
    default_processor_toggle [of "example_inputs\<lparr>in_DEFAULT_PROCESSOR := Given ''pillow'',
                                     in_ENABLE_PHOTOROOM := Given False\<rparr>"]
  by (simp add: example_inputs_def other_fields_valid_def field_defs check_defs)

section \<open>Development mode\<close>

text \<open>
  Claim C2, as stated, fails: an instance with host \<^verbatim>\<open>localhost\<close> and port 9000 is in
  development mode although its host is not \<^verbatim>\<open>127.0.0.1\<close> and its port is neither
  8000 nor 8080.
\<close>

theorem is_development_counterexample:
  "Settings (example_inputs\<lparr>in_HOST := Given ''localhost'', in_PORT := Given 9000\<rparr>)
     = Inr (example_settings\<lparr>HOST := ''localhost'', PORT := 9000\<rparr>)
   \<and> is_development (example_settings\<lparr>HOST := ''localhost'', PORT := 9000\<rparr>)
   \<and> \<not> (HOST (example_settings\<lparr>HOST := ''localhost'', PORT := 9000\<rparr>) = ''127.0.0.1''
        \<or> PORT (example_settings\<lparr>HOST := ''localhost'', PORT := 9000\<rparr>) = 8000
        \<or> PORT (example_settings\<lparr>HOST := ''localhost'', PORT := 9000\<rparr>) = 8080)"
  by (simp add: Settings_Inr_iff example_inputs_def example_settings_def field_defs check_defs
      is_development_def)

text \<open>
  Claim C2, amended. For every constructed instance, \<^verbatim>\<open>is_development\<close> is true
  exactly when the host is \<^verbatim>\<open>127.0.0.1\<close> or \<^verbatim>\<open>localhost\<close>, or the port is 8000 or
  8080.
\<close>

theorem is_development_iff:
  assumes "Settings r = Inr s"
  shows "is_development s \<longleftrightarrow>
     HOST s = ''127.0.0.1'' \<or> HOST s = ''localhost'' \<or> PORT s = 8000 \<or> PORT s = 8080"
  by (auto simp: is_development_def)

theorem is_development_iff_witness:
  "Settings example_inputs = Inr example_settings
   \<and> (is_development example_settings \<longleftrightarrow>
        HOST example_settings = ''127.0.0.1'' \<or> HOST example_settings = ''localhost''
        \<or> PORT example_settings = 8000 \<or> PORT example_settings = 8080)"
  by (rule conjI [OF Settings_example is_development_iff [OF Settings_example]])

section \<open>The webhook URL\<close>

text \<open>
  Claim C3. In every constructed instance, a supplied webhook URL that starts with
  \<^verbatim>\<open>https://yourdomain\<close> is stored as \<^verbatim>\<open>None\<close> and any other supplied webhook URL is
  stored unchanged; no instance stores a URL with that prefix.
\<close>

theorem webhook_url_normalised:
  assumes "Settings r = Inr s"
  shows "(in_WEBHOOK_URL r = Given u \<longrightarrow>
            WEBHOOK_URL s = (if prefix ''https://yourdomain'' u then None else Some u))
         \<and> (WEBHOOK_URL s = Some w \<longrightarrow> \<not> prefix ''https://yourdomain'' w)"
proof -
  from assms have f: "field_WEBHOOK_URL r = Inr (WEBHOOK_URL s)"
    by (simp add: Settings_Inr_iff)
  show ?thesis
  proof (cases "in_WEBHOOK_URL r")
    case Unset
    with f show ?thesis
      by (auto simp: field_WEBHOOK_URL_def validator_def validate_webhook_url_def truthy_def)
  next
    case Malformed
    with f show ?thesis
      by (simp add: field_WEBHOOK_URL_def)
  next
    case (Given x)
    with f show ?thesis
      by (auto simp: field_WEBHOOK_URL_def validator_def validate_webhook_url_def truthy_def
          startswith_def split: if_splits)
  qed
qed

theorem webhook_url_normalised_witness:
  "Settings (example_inputs\<lparr>in_WEBHOOK_URL := Given ''https://yourdomain.example''\<rparr>)
     = Inr example_settings
   \<and> WEBHOOK_URL example_settings = None
   \<and> Settings (example_inputs\<lparr>in_WEBHOOK_URL := Given ''https://bot.example.org/hook''\<rparr>)
     = Inr (example_settings\<lparr>WEBHOOK_URL := Some ''https://bot.example.org/hook''\<rparr>)
   \<and> \<not> prefix ''https://yourdomain'' ''https://bot.example.org/hook''"
proof -
  have a: "Settings (example_inputs\<lparr>in_WEBHOOK_URL := Given ''https://yourdomain.example''\<rparr>)
     = Inr example_settings"
    by (simp add: Settings_Inr_iff example_inputs_def example_settings_def field_defs check_defs)
  have b: "Settings (example_inputs\<lparr>in_WEBHOOK_URL := Given ''https://bot.example.org/hook''\<rparr>)
     = Inr (example_settings\<lparr>WEBHOOK_URL := Some ''https://bot.example.org/hook''\<rparr>)"
    by (simp add: Settings_Inr_iff example_inputs_def example_settings_def field_defs check_defs)
  from webhook_url_normalised [OF a, of "''https://yourdomain.example''"]
  have "WEBHOOK_URL example_settings = None"
    by (simp add: example_inputs_def)
  moreover from webhook_url_normalised [OF b, of _ "''https://bot.example.org/hook''"]
  have "\<not> prefix ''https://yourdomain'' ''https://bot.example.org/hook''"
    by (simp add: example_settings_def)
  ultimately show ?thesis using a b by simp
qed

section \<open>The two secrets\<close>

lemma token_field_fails:
  assumes "in_TELEGRAM_BOT_TOKEN r = Unset
     \<or> (\<exists>t. in_TELEGRAM_BOT_TOKEN r = Given t
          \<and> (t = [] \<or> t = ''your_telegram_bot_token_here'' \<or> CHR '':'' \<notin> set t
             \<or> length t < 30))"
  shows "\<exists>e. field_TELEGRAM_BOT_TOKEN r = Inl (''TELEGRAM_BOT_TOKEN'', e)"
  using assms
  by (auto simp: field_TELEGRAM_BOT_TOKEN_def validator_def validate_telegram_token_def)

lemma key_field_fails:
  assumes "in_PHOTOROOM_API_KEY r = Unset
     \<or> (\<exists>k. in_PHOTOROOM_API_KEY r = Given k
          \<and> (k = [] \<or> k = ''your_photoroom_api_key_here''))"
  shows "\<exists>e. field_PHOTOROOM_API_KEY r = Inl (''PHOTOROOM_API_KEY'', e)"
  using assms
  by (auto simp: field_PHOTOROOM_API_KEY_def validator_def validate_photoroom_key_def)

lemma token_field_ok:
  assumes "field_TELEGRAM_BOT_TOKEN r = Inr t"
  shows "in_TELEGRAM_BOT_TOKEN r = Given t \<and> t \<noteq> [] \<and> t \<noteq> ''your_telegram_bot_token_here''
     \<and> CHR '':'' \<in> set t \<and> 30 \<le> length t"
  using assms
  by (cases "in_TELEGRAM_BOT_TOKEN r")
    (auto simp: field_TELEGRAM_BOT_TOKEN_def validator_def validate_telegram_token_def
      split: if_splits)

lemma key_field_ok:
  assumes "field_PHOTOROOM_API_KEY r = Inr k"
  shows "in_PHOTOROOM_API_KEY r = Given k \<and> k \<noteq> [] \<and> k \<noteq> ''your_photoroom_api_key_here''"
  using assms
  by (cases "in_PHOTOROOM_API_KEY r")
    (auto simp: field_PHOTOROOM_API_KEY_def validator_def validate_photoroom_key_def
      split: if_splits)

text \<open>
  Claim C4. Whatever the other fields and entries are, the construction fails when the
  bot token is missing, empty, the placeholder, without \<^verbatim>\<open>:\<close> or shorter than 30
  characters, and when the Photoroom key is missing, empty or its placeholder; when the
  settings sources can be read, the error raised is a validation error on
  \<^verbatim>\<open>TELEGRAM_BOT_TOKEN\<close> or on \<^verbatim>\<open>PHOTOROOM_API_KEY\<close>. In an instance that is
  constructed, both secrets are the supplied ones and are well-formed.
\<close>

theorem secrets_required:
  "((in_TELEGRAM_BOT_TOKEN r = Unset
      \<or> (\<exists>t. in_TELEGRAM_BOT_TOKEN r = Given t
           \<and> (t = [] \<or> t = ''your_telegram_bot_token_here'' \<or> CHR '':'' \<notin> set t
              \<or> length t < 30)))
     \<longrightarrow> (\<exists>err. Settings r = Inl err)
         \<and> (in_SUPPORTED_FORMATS r \<noteq> Undecodable \<longrightarrow>
              (\<exists>es e. Settings r = Inl (ValidationError es)
                 \<and> (''TELEGRAM_BOT_TOKEN'', e) \<in> set es)))
   \<and> ((in_PHOTOROOM_API_KEY r = Unset
      \<or> (\<exists>k. in_PHOTOROOM_API_KEY r = Given k
           \<and> (k = [] \<or> k = ''your_photoroom_api_key_here'')))
     \<longrightarrow> (\<exists>err. Settings r = Inl err)
         \<and> (in_SUPPORTED_FORMATS r \<noteq> Undecodable \<longrightarrow>
              (\<exists>es e. Settings r = Inl (ValidationError es)
                 \<and> (''PHOTOROOM_API_KEY'', e) \<in> set es)))
   \<and> (Settings r = Inr s
     \<longrightarrow> in_TELEGRAM_BOT_TOKEN r = Given (TELEGRAM_BOT_TOKEN s)
         \<and> TELEGRAM_BOT_TOKEN s \<noteq> []
         \<and> TELEGRAM_BOT_TOKEN s \<noteq> ''your_telegram_bot_token_here''
         \<and> CHR '':'' \<in> set (TELEGRAM_BOT_TOKEN s)
         \<and> 30 \<le> length (TELEGRAM_BOT_TOKEN s)
         \<and> in_PHOTOROOM_API_KEY r = Given (PHOTOROOM_API_KEY s)
         \<and> PHOTOROOM_API_KEY s \<noteq> []
         \<and> PHOTOROOM_API_KEY s \<noteq> ''your_photoroom_api_key_here'')"
  (is "(?bad_token \<longrightarrow> ?token_error) \<and> (?bad_key \<longrightarrow> ?key_error) \<and> (?built \<longrightarrow> ?well_formed)")
proof -
  have token: ?token_error if ?bad_token
  proof -
    from that obtain e where e: "field_TELEGRAM_BOT_TOKEN r = Inl (''TELEGRAM_BOT_TOKEN'', e)"
      using token_field_fails by blast
    have "(\<exists>err. Settings r = Inl err)
      \<and> (in_SUPPORTED_FORMATS r \<noteq> Undecodable \<longrightarrow>
          (\<exists>es. Settings r = Inl (ValidationError es) \<and> (''TELEGRAM_BOT_TOKEN'', e) \<in> set es))"
      using e by (intro field_fails) simp
    then show ?thesis by blast
  qed
  have key: ?key_error if ?bad_key
  proof -
    from that obtain e where e: "field_PHOTOROOM_API_KEY r = Inl (''PHOTOROOM_API_KEY'', e)"
      using key_field_fails by blast
    have "(\<exists>err. Settings r = Inl err)
      \<and> (in_SUPPORTED_FORMATS r \<noteq> Undecodable \<longrightarrow>
          (\<exists>es. Settings r = Inl (ValidationError es) \<and> (''PHOTOROOM_API_KEY'', e) \<in> set es))"
      using e by (intro field_fails) simp
    then show ?thesis by blast
  qed
  have built: ?well_formed if ?built
  proof -
    from that have "field_TELEGRAM_BOT_TOKEN r = Inr (TELEGRAM_BOT_TOKEN s)"
      and "field_PHOTOROOM_API_KEY r = Inr (PHOTOROOM_API_KEY s)"
      by (simp_all add: Settings_Inr_iff)
    then show ?thesis
      using token_field_ok [of r "TELEGRAM_BOT_TOKEN s"] key_field_ok [of r "PHOTOROOM_API_KEY s"]
      by simp
  qed
  from token key built show ?thesis by blast
qed

theorem secrets_required_witness:
  "(\<exists>es e. Settings (example_inputs\<lparr>in_TELEGRAM_BOT_TOKEN := Given ''123456:short''\<rparr>)
         = Inl (ValidationError es)
       \<and> (''TELEGRAM_BOT_TOKEN'', e) \<in> set es)
   \<and> (\<exists>err. Settings (example_inputs\<lparr>in_PHOTOROOM_API_KEY := Unset,
                                      in_SUPPORTED_FORMATS := Undecodable\<rparr>) = Inl err)
   \<and> Settings example_inputs = Inr example_settings
   \<and> 30 \<le> length (TELEGRAM_BOT_TOKEN example_settings)
   \<and> PHOTOROOM_API_KEY example_settings \<noteq> []"
proof -
  have "in_TELEGRAM_BOT_TOKEN (example_inputs\<lparr>in_TELEGRAM_BOT_TOKEN := Given ''123456:short''\<rparr>)
      = Given ''123456:short'' \<and> length ''123456:short'' < 30
    \<and> in_SUPPORTED_FORMATS (example_inputs\<lparr>in_TELEGRAM_BOT_TOKEN := Given ''123456:short''\<rparr>)
      \<noteq> Undecodable"
    by (simp add: example_inputs_def)
  with secrets_required [of "example_inputs\<lparr>in_TELEGRAM_BOT_TOKEN := Given ''123456:short''\<rparr>"]
  have a: "\<exists>es e. Settings (example_inputs\<lparr>in_TELEGRAM_BOT_TOKEN := Given ''123456:short''\<rparr>)
      = Inl (ValidationError es) \<and> (''TELEGRAM_BOT_TOKEN'', e) \<in> set es"
    by blast
  have "in_PHOTOROOM_API_KEY (example_inputs\<lparr>in_PHOTOROOM_API_KEY := Unset,
      in_SUPPORTED_FORMATS := Undecodable\<rparr>) = Unset"
    by simp
  with secrets_required [of "example_inputs\<lparr>in_PHOTOROOM_API_KEY := Unset,
      in_SUPPORTED_FORMATS := Undecodable\<rparr>"]
  have b: "\<exists>err. Settings (example_inputs\<lparr>in_PHOTOROOM_API_KEY := Unset,
      in_SUPPORTED_FORMATS := Undecodable\<rparr>) = Inl err"
    by blast
  from secrets_required [of example_inputs example_settings] Settings_example
  have c: "30 \<le> length (TELEGRAM_BOT_TOKEN example_settings)
      \<and> PHOTOROOM_API_KEY example_settings \<noteq> []"
    by blast
  from a b c Settings_example show ?thesis by blast
qed

section \<open>The numeric fields\<close>

lemma range_checked_field:
  fixes field :: "inputs \<Rightarrow> error_details + int"
  assumes given: "\<And>r v. supplied r = Given v \<Longrightarrow> field r = ge_le name lo hi v"
    and fails: "\<And>r e. field r = Inl e \<Longrightarrow> (\<exists>err. Settings r = Inl err)
        \<and> (in_SUPPORTED_FORMATS r \<noteq> Undecodable \<longrightarrow>
            (\<exists>es. Settings r = Inl (ValidationError es) \<and> e \<in> set es))"
    and own: "\<And>r err. Settings r = Inl err \<Longrightarrow> identifies err name
        \<Longrightarrow> \<exists>t. field r = Inl (name, t)"
    and kept: "\<And>r s. Settings r = Inr s \<Longrightarrow> field r = Inr (stored s)"
  shows "range_checked supplied stored name lo hi"
  unfolding range_checked_def
proof (intro allI impI)
  fix r :: inputs and v :: int
  assume "supplied r = Given v"
  then have f: "field r = ge_le name lo hi v"
    by (rule given)
  show "if v < lo \<or> hi < v
         then (\<exists>err. Settings r = Inl err)
              \<and> (in_SUPPORTED_FORMATS r \<noteq> Undecodable \<longrightarrow>
                   (\<exists>es t. Settings r = Inl (ValidationError es) \<and> (name, t) \<in> set es))
         else (\<forall>err. Settings r = Inl err \<longrightarrow> \<not> identifies err name)
              \<and> (\<forall>s. Settings r = Inr s \<longrightarrow> stored s = v)"
  proof (cases "v < lo \<or> hi < v")
    case True
    with f obtain t where "field r = Inl (name, t)"
      by (auto simp: ge_le_def split: if_splits)
    then have "(\<exists>err. Settings r = Inl err)
        \<and> (in_SUPPORTED_FORMATS r \<noteq> Undecodable \<longrightarrow>
            (\<exists>es. Settings r = Inl (ValidationError es) \<and> (name, t) \<in> set es))"
      by (rule fails)
    with True show ?thesis by auto
  next
    case False
    with f have ok: "field r = Inr v"
      by (simp add: ge_le_def)
    have "\<not> identifies err name" if "Settings r = Inl err" for err
      using ok own [OF that] by auto
    moreover have "\<forall>s. Settings r = Inr s \<longrightarrow> stored s = v"
      using ok kept [of r] by auto
    ultimately show ?thesis using False by simp
  qed
qed

lemma range_checked_PORT: "range_checked in_PORT PORT ''PORT'' 1000 65535"
proof (rule range_checked_field [where field = field_PORT])
  show "\<And>r v. in_PORT r = Given v \<Longrightarrow> field_PORT r = ge_le ''PORT'' 1000 65535 v"
    by (simp add: field_PORT_def)
  show "\<And>r e. field_PORT r = Inl e \<Longrightarrow> (\<exists>err. Settings r = Inl err)
        \<and> (in_SUPPORTED_FORMATS r \<noteq> Undecodable \<longrightarrow>
            (\<exists>es. Settings r = Inl (ValidationError es) \<and> e \<in> set es))"
    by (rule field_fails) simp
  show "\<And>r err. Settings r = Inl err \<Longrightarrow> identifies err ''PORT''
        \<Longrightarrow> \<exists>t. field_PORT r = Inl (''PORT'', t)"
    by (drule (1) identifies_Settings)
      (auto simp: reports_model_validate field_names_def dest: field_locs extra_keys_undeclared)
  show "\<And>r s. Settings r = Inr s \<Longrightarrow> field_PORT r = Inr (PORT s)"
    by (simp add: Settings_Inr_iff)
qed

lemma range_checked_MAX_IMAGE_SIZE_MB:
  "range_checked in_MAX_IMAGE_SIZE_MB MAX_IMAGE_SIZE_MB ''MAX_IMAGE_SIZE_MB'' 1 50"
proof (rule range_checked_field [where field = field_MAX_IMAGE_SIZE_MB])
  show "\<And>r v. in_MAX_IMAGE_SIZE_MB r = Given v
      \<Longrightarrow> field_MAX_IMAGE_SIZE_MB r = ge_le ''MAX_IMAGE_SIZE_MB'' 1 50 v"
    by (simp add: field_MAX_IMAGE_SIZE_MB_def)
  show "\<And>r e. field_MAX_IMAGE_SIZE_MB r = Inl e \<Longrightarrow> (\<exists>err. Settings r = Inl err)
        \<and> (in_SUPPORTED_FORMATS r \<noteq> Undecodable \<longrightarrow>
            (\<exists>es. Settings r = Inl (ValidationError es) \<and> e \<in> set es))"
    by (rule field_fails) simp
  show "\<And>r err. Settings r = Inl err \<Longrightarrow> identifies err ''MAX_IMAGE_SIZE_MB''
        \<Longrightarrow> \<exists>t. field_MAX_IMAGE_SIZE_MB r = Inl (''MAX_IMAGE_SIZE_MB'', t)"
    by (drule (1) identifies_Settings)
      (auto simp: reports_model_validate field_names_def dest: field_locs extra_keys_undeclared)
  show "\<And>r s. Settings r = Inr s
      \<Longrightarrow> field_MAX_IMAGE_SIZE_MB r = Inr (MAX_IMAGE_SIZE_MB s)"
    by (simp add: Settings_Inr_iff)
qed

lemma range_checked_DEFAULT_IMAGE_QUALITY:
  "range_checked in_DEFAULT_IMAGE_QUALITY DEFAULT_IMAGE_QUALITY ''DEFAULT_IMAGE_QUALITY'' 1 100"
proof (rule range_checked_field [where field = field_DEFAULT_IMAGE_QUALITY])
  show "\<And>r v. in_DEFAULT_IMAGE_QUALITY r = Given v
      \<Longrightarrow> field_DEFAULT_IMAGE_QUALITY r = ge_le ''DEFAULT_IMAGE_QUALITY'' 1 100 v"
    by (simp add: field_DEFAULT_IMAGE_QUALITY_def)
  show "\<And>r e. field_DEFAULT_IMAGE_QUALITY r = Inl e \<Longrightarrow> (\<exists>err. Settings r = Inl err)
        \<and> (in_SUPPORTED_FORMATS r \<noteq> Undecodable \<longrightarrow>
            (\<exists>es. Settings r = Inl (ValidationError es) \<and> e \<in> set es))"
    by (rule field_fails) simp
  show "\<And>r err. Settings r = Inl err \<Longrightarrow> identifies err ''DEFAULT_IMAGE_QUALITY''
        \<Longrightarrow> \<exists>t. field_DEFAULT_IMAGE_QUALITY r = Inl (''DEFAULT_IMAGE_QUALITY'', t)"
    by (drule (1) identifies_Settings)
      (auto simp: reports_model_validate field_names_def dest: field_locs extra_keys_undeclared)
  show "\<And>r s. Settings r = Inr s
      \<Longrightarrow> field_DEFAULT_IMAGE_QUALITY r = Inr (DEFAULT_IMAGE_QUALITY s)"
    by (simp add: Settings_Inr_iff)
qed

lemma range_checked_REQUEST_TIMEOUT:
  "range_checked in_REQUEST_TIMEOUT REQUEST_TIMEOUT ''REQUEST_TIMEOUT'' 5 120"
proof (rule range_checked_field [where field = field_REQUEST_TIMEOUT])
  show "\<And>r v. in_REQUEST_TIMEOUT r = Given v
      \<Longrightarrow> field_REQUEST_TIMEOUT r = ge_le ''REQUEST_TIMEOUT'' 5 120 v"
    by (simp add: field_REQUEST_TIMEOUT_def)
  show "\<And>r e. field_REQUEST_TIMEOUT r = Inl e \<Longrightarrow> (\<exists>err. Settings r = Inl err)
        \<and> (in_SUPPORTED_FORMATS r \<noteq> Undecodable \<longrightarrow>
            (\<exists>es. Settings r = Inl (ValidationError es) \<and> e \<in> set es))"
    by (rule field_fails) simp
  show "\<And>r err. Settings r = Inl err \<Longrightarrow> identifies err ''REQUEST_TIMEOUT''
        \<Longrightarrow> \<exists>t. field_REQUEST_TIMEOUT r = Inl (''REQUEST_TIMEOUT'', t)"
    by (drule (1) identifies_Settings)
      (auto simp: reports_model_validate field_names_def dest: field_locs extra_keys_undeclared)
  show "\<And>r s. Settings r = Inr s
      \<Longrightarrow> field_REQUEST_TIMEOUT r = Inr (REQUEST_TIMEOUT s)"
    by (simp add: Settings_Inr_iff)
qed

lemma range_checked_SESSION_TTL:
  "range_checked in_SESSION_TTL SESSION_TTL ''SESSION_TTL'' 300 86400"
proof (rule range_checked_field [where field = field_SESSION_TTL])
  show "\<And>r v. in_SESSION_TTL r = Given v
      \<Longrightarrow> field_SESSION_TTL r = ge_le ''SESSION_TTL'' 300 86400 v"
    by (simp add: field_SESSION_TTL_def)
  show "\<And>r e. field_SESSION_TTL r = Inl e \<Longrightarrow> (\<exists>err. Settings r = Inl err)
        \<and> (in_SUPPORTED_FORMATS r \<noteq> Undecodable \<longrightarrow>
            (\<exists>es. Settings r = Inl (ValidationError es) \<and> e \<in> set es))"
    by (rule field_fails) simp
  show "\<And>r err. Settings r = Inl err \<Longrightarrow> identifies err ''SESSION_TTL''
        \<Longrightarrow> \<exists>t. field_SESSION_TTL r = Inl (''SESSION_TTL'', t)"
    by (drule (1) identifies_Settings)
      (auto simp: reports_model_validate field_names_def dest: field_locs extra_keys_undeclared)
  show "\<And>r s. Settings r = Inr s
      \<Longrightarrow> field_SESSION_TTL r = Inr (SESSION_TTL s)"
    by (simp add: Settings_Inr_iff)
qed

lemma range_checked_RATE_LIMIT_PER_MINUTE:
  "range_checked in_RATE_LIMIT_PER_MINUTE RATE_LIMIT_PER_MINUTE ''RATE_LIMIT_PER_MINUTE'' 1 1000"
proof (rule range_checked_field [where field = field_RATE_LIMIT_PER_MINUTE])
  show "\<And>r v. in_RATE_LIMIT_PER_MINUTE r = Given v
      \<Longrightarrow> field_RATE_LIMIT_PER_MINUTE r = ge_le ''RATE_LIMIT_PER_MINUTE'' 1 1000 v"
    by (simp add: field_RATE_LIMIT_PER_MINUTE_def)
  show "\<And>r e. field_RATE_LIMIT_PER_MINUTE r = Inl e \<Longrightarrow> (\<exists>err. Settings r = Inl err)
        \<and> (in_SUPPORTED_FORMATS r \<noteq> Undecodable \<longrightarrow>
            (\<exists>es. Settings r = Inl (ValidationError es) \<and> e \<in> set es))"
    by (rule field_fails) simp
  show "\<And>r err. Settings r = Inl err \<Longrightarrow> identifies err ''RATE_LIMIT_PER_MINUTE''
        \<Longrightarrow> \<exists>t. field_RATE_LIMIT_PER_MINUTE r = Inl (''RATE_LIMIT_PER_MINUTE'', t)"
    by (drule (1) identifies_Settings)
      (auto simp: reports_model_validate field_names_def dest: field_locs extra_keys_undeclared)
  show "\<And>r s. Settings r = Inr s
      \<Longrightarrow> field_RATE_LIMIT_PER_MINUTE r = Inr (RATE_LIMIT_PER_MINUTE s)"
    by (simp add: Settings_Inr_iff)
qed

lemma range_checkedD:
  assumes "range_checked supplied stored name lo hi" and "supplied r = Given v"
  shows "v < lo \<or> hi < v \<Longrightarrow> in_SUPPORTED_FORMATS r \<noteq> Undecodable
      \<Longrightarrow> \<exists>es t. Settings r = Inl (ValidationError es) \<and> (name, t) \<in> set es"
    and "v < lo \<or> hi < v \<Longrightarrow> \<exists>err. Settings r = Inl err"
    and "lo \<le> v \<Longrightarrow> v \<le> hi \<Longrightarrow> Settings r = Inr s \<Longrightarrow> stored s = v"
  using assms unfolding range_checked_def by (auto split: if_splits)

text \<open>
  Claim C5, as stated, fails in its first half: with the port supplied as 1 and an entry
  for \<^verbatim>\<open>SUPPORTED_FORMATS\<close> that is not JSON, the construction fails with the error of
  the settings source, which names \<^verbatim>\<open>SUPPORTED_FORMATS\<close> and not \<^verbatim>\<open>PORT\<close>.
\<close>

theorem numeric_field_unreported_counterexample:
  "in_PORT (example_inputs\<lparr>in_PORT := Given 1, in_SUPPORTED_FORMATS := Undecodable\<rparr>) = Given 1
   \<and> Settings (example_inputs\<lparr>in_PORT := Given 1, in_SUPPORTED_FORMATS := Undecodable\<rparr>)
       = Inl (SettingsError ''SUPPORTED_FORMATS'')
   \<and> \<not> identifies (SettingsError ''SUPPORTED_FORMATS'') ''PORT''"
  by (simp add: Settings_def identifies_def)

text \<open>
  Claim C5, amended. Each of the six numeric fields is checked against its declared
  range: port \<open>[1000, 65535]\<close>, maximal image size in MB \<open>[1, 50]\<close>, default image quality
  \<open>[1, 100]\<close>, request timeout \<open>[5, 120]\<close>, session TTL \<open>[300, 86400]\<close>, rate limit per
  minute \<open>[1, 1000]\<close>. A supplied value below the minimum or above the maximum makes the
  construction fail, with an error naming the field unless the settings sources already
  fail on an entry of \<^verbatim>\<open>SUPPORTED_FORMATS\<close> that is not JSON; a supplied value inside
  the range causes no error naming the field and is stored unchanged in the constructed
  instance.
\<close>

theorem numeric_fields_range_checked:
  "range_checked in_PORT PORT ''PORT'' 1000 65535
   \<and> range_checked in_MAX_IMAGE_SIZE_MB MAX_IMAGE_SIZE_MB ''MAX_IMAGE_SIZE_MB'' 1 50
   \<and> range_checked in_DEFAULT_IMAGE_QUALITY DEFAULT_IMAGE_QUALITY ''DEFAULT_IMAGE_QUALITY'' 1 100
   \<and> range_checked in_REQUEST_TIMEOUT REQUEST_TIMEOUT ''REQUEST_TIMEOUT'' 5 120
   \<and> range_checked in_SESSION_TTL SESSION_TTL ''SESSION_TTL'' 300 86400
   \<and> range_checked in_RATE_LIMIT_PER_MINUTE RATE_LIMIT_PER_MINUTE ''RATE_LIMIT_PER_MINUTE''
        1 1000"
  by (intro conjI range_checked_PORT range_checked_MAX_IMAGE_SIZE_MB
      range_checked_DEFAULT_IMAGE_QUALITY range_checked_REQUEST_TIMEOUT
      range_checked_SESSION_TTL range_checked_RATE_LIMIT_PER_MINUTE)

theorem numeric_fields_range_checked_witness:
  "(\<exists>es t. Settings (example_inputs\<lparr>in_PORT := Given 999\<rparr>) = Inl (ValidationError es)
        \<and> (''PORT'', t) \<in> set es)
   \<and> (\<exists>es t. Settings (example_inputs\<lparr>in_SESSION_TTL := Given 86401\<rparr>)
          = Inl (ValidationError es)
        \<and> (''SESSION_TTL'', t) \<in> set es)
   \<and> (\<exists>err. Settings (example_inputs\<lparr>in_PORT := Given 1, in_SUPPORTED_FORMATS := Undecodable\<rparr>)
          = Inl err)
   \<and> Settings (example_inputs\<lparr>in_PORT := Given 65535\<rparr>) = Inr (example_settings\<lparr>PORT := 65535\<rparr>)
   \<and> PORT (example_settings\<lparr>PORT := 65535\<rparr>) = 65535"
proof -
  have p: "range_checked in_PORT PORT ''PORT'' 1000 65535"
    and t: "range_checked in_SESSION_TTL SESSION_TTL ''SESSION_TTL'' 300 86400"
    using numeric_fields_range_checked by blast+
  have a: "\<exists>es t. Settings (example_inputs\<lparr>in_PORT := Given 999\<rparr>) = Inl (ValidationError es)
      \<and> (''PORT'', t) \<in> set es"
    by (rule range_checkedD(1) [OF p, of _ 999]) (simp_all add: example_inputs_def)
  have b: "\<exists>es t. Settings (example_inputs\<lparr>in_SESSION_TTL := Given 86401\<rparr>)
      = Inl (ValidationError es) \<and> (''SESSION_TTL'', t) \<in> set es"
    by (rule range_checkedD(1) [OF t, of _ 86401]) (simp_all add: example_inputs_def)
  have c: "\<exists>err. Settings (example_inputs\<lparr>in_PORT := Given 1, in_SUPPORTED_FORMATS := Undecodable\<rparr>)
      = Inl err"
    by (rule range_checkedD(2) [OF p, of _ 1]) simp_all
  have d: "Settings (example_inputs\<lparr>in_PORT := Given 65535\<rparr>)
      = Inr (example_settings\<lparr>PORT := 65535\<rparr>)"
    by (simp add: Settings_Inr_iff example_inputs_def example_settings_def field_defs check_defs)
  have e: "PORT (example_settings\<lparr>PORT := 65535\<rparr>) = 65535"
    by (rule range_checkedD(3) [OF p _ _ _ d]) simp_all
  from a b c d e show ?thesis by blast
qed

section \<open>Derived sizes and switches\<close>

lemma MAX_IMAGE_SIZE_MB_range:
  assumes "Settings r = Inr s"
  shows "1 \<le> MAX_IMAGE_SIZE_MB s \<and> MAX_IMAGE_SIZE_MB s \<le> 50"
proof -
  from assms have "field_MAX_IMAGE_SIZE_MB r = Inr (MAX_IMAGE_SIZE_MB s)"
    by (simp add: Settings_Inr_iff)
  then show ?thesis
    by (cases "in_MAX_IMAGE_SIZE_MB r")
      (auto simp: field_MAX_IMAGE_SIZE_MB_def ge_le_def split: if_splits)
qed

text \<open>
  Claim C8. In every constructed instance the maximal image size \<open>m\<close> in MB lies in
  \<open>[1, 50]\<close>, and \<^verbatim>\<open>max_image_size_bytes\<close> is \<open>m\<close> times 1,048,576; 10 MB are 10,485,760
  bytes.
\<close>

theorem max_image_size_bytes_eq:
  assumes "Settings r = Inr s" and "MAX_IMAGE_SIZE_MB s = m"
  shows "1 \<le> m \<and> m \<le> 50 \<and> max_image_size_bytes s = m * 1048576"
  using assms MAX_IMAGE_SIZE_MB_range [of r s] by (simp add: max_image_size_bytes_def)

theorem max_image_size_bytes_eq_witness:
  "Settings example_inputs = Inr example_settings
   \<and> MAX_IMAGE_SIZE_MB example_settings = 10
   \<and> max_image_size_bytes example_settings = 10485760"
proof -
  have m: "MAX_IMAGE_SIZE_MB example_settings = 10"
    by (simp add: example_settings_def)
  from max_image_size_bytes_eq [OF Settings_example m]
  have "max_image_size_bytes example_settings = 10485760"
    by simp
  with Settings_example m show ?thesis by blast
qed

text \<open>
  Claim C10. In every constructed instance \<^verbatim>\<open>webhook_enabled\<close> equals
  \<^verbatim>\<open>is_production\<close>: the test for a webhook URL in \<^verbatim>\<open>webhook_enabled\<close> repeats the one
  in \<^verbatim>\<open>is_production\<close>.
\<close>

theorem webhook_enabled_is_production:
  assumes "Settings r = Inr s"
  shows "webhook_enabled s = is_production s"
  by (auto simp: webhook_enabled_def is_production_def)

theorem webhook_enabled_is_production_witness:
  "Settings example_inputs = Inr example_settings
   \<and> webhook_enabled example_settings = is_production example_settings"
  by (rule conjI [OF Settings_example webhook_enabled_is_production [OF Settings_example]])

section \<open>The cached instance\<close>

lemma first_supplied_Unset: "first_supplied x Unset = x"
  by (cases x) auto

lemma first_decoded_Unset: "first_decoded x (Decoded Unset) = x"
  by (cases x) (auto simp: first_supplied_Unset)

lemma settings_sources_example:
  "settings_sources (example_process env cached) name = env\<lparr>in_other_keys := []\<rparr>"
  by (cases env)
    (simp add: settings_sources_def example_process_def no_entries_def first_supplied_Unset
      first_decoded_Unset)

lemma Settings_example_no_token:
  "Settings (example_inputs\<lparr>in_TELEGRAM_BOT_TOKEN := Unset, in_other_keys := []\<rparr>)
     = Inl (ValidationError [(''TELEGRAM_BOT_TOKEN'', missing)])"
  by (simp add: Settings_def model_validate_def example_inputs_def field_defs check_defs)

lemma example_inputs_other_keys: "example_inputs\<lparr>in_other_keys := []\<rparr> = example_inputs"
  by (simp add: example_inputs_def)

text \<open>
  While an instance is cached the accessor returns it and changes nothing, whatever the
  sources hold. A reload drops what is cached and constructs from the sources of that
  moment: on success the new instance is returned and cached, on failure the error is
  raised and nothing is cached.
\<close>

lemma get_settings_cached: "g_settings_instance p = Some s \<Longrightarrow> get_settings p = (Inr s, p)"
  by (simp add: get_settings_def)

lemma reload_settings_discards:
  "reload_settings p =
     (case Settings (settings_sources p ''.env'') of
        Inr s \<Rightarrow> (Inr s, p\<lparr>g_settings_instance := Some s, stdout := stdout p @ summary s\<rparr>)
      | Inl e \<Rightarrow>
          (Inl e, p\<lparr>g_settings_instance := None,
                    stdout := stdout p @ [load_error e, check_env_hint]\<rparr>))"
  by (simp add: reload_settings_def get_settings_def settings_sources_def split: sum.splits)

lemma sources_imported:
  "settings_sources imported ''.env'' = example_inputs\<lparr>in_PORT := Given 8443\<rparr>"
  by (simp add: imported_def import_module_def load_dotenv_def before_import_def
      settings_sources_def only_file_def no_entries_def example_inputs_def)

lemma Settings_example_8443:
  "Settings (example_inputs\<lparr>in_PORT := Given 8443\<rparr>) = Inr (example_settings\<lparr>PORT := 8443\<rparr>)"
  by (simp add: Settings_Inr_iff example_inputs_def example_settings_def field_defs check_defs)

lemma Settings_example_9000:
  "Settings (example_inputs\<lparr>in_PORT := Given 9000\<rparr>) = Inr (example_settings\<lparr>PORT := 9000\<rparr>)"
  by (simp add: Settings_Inr_iff example_inputs_def example_settings_def field_defs check_defs)

lemma get_settings_imported:
  "get_settings imported =
     (Inr (example_settings\<lparr>PORT := 8443\<rparr>),
      imported\<lparr>g_settings_instance := Some (example_settings\<lparr>PORT := 8443\<rparr>),
               stdout := stdout imported @ summary (example_settings\<lparr>PORT := 8443\<rparr>)\<rparr>)"
proof -
  have "g_settings_instance imported = None"
    by (simp add: imported_def import_module_def)
  then show ?thesis
    by (simp add: get_settings_def sources_imported Settings_example_8443)
qed

lemma sources_file_rewritten:
  "settings_sources file_rewritten ''.env'' = example_inputs\<lparr>in_PORT := Given 8443\<rparr>"
  by (simp add: file_rewritten_def get_settings_imported)
    (simp add: imported_def import_module_def load_dotenv_def before_import_def
      settings_sources_def only_file_def no_entries_def example_inputs_def)

text \<open>
  Claim C6 on the run above. The first access constructs an instance with port 8443.
  Then \<^verbatim>\<open>.env\<close> is rewritten to port 9000, which is what a construction from the file
  alone would store. \<^verbatim>\<open>reload_settings\<close> drops the cached instance and constructs
  again, and the instance it returns still has port 8443: since the import the process
  environment holds the old entry, and it takes priority over the file.
\<close>

theorem reload_settings_stale_dotenv:
  "fst (get_settings imported) = Inr (example_settings\<lparr>PORT := 8443\<rparr>)
   \<and> in_PORT (dotenv_file file_rewritten ''.env'') = Given 9000
   \<and> Settings (dotenv_file file_rewritten ''.env'') = Inr (example_settings\<lparr>PORT := 9000\<rparr>)
   \<and> fst (reload_settings file_rewritten) = Inr (example_settings\<lparr>PORT := 8443\<rparr>)
   \<and> PORT (example_settings\<lparr>PORT := 8443\<rparr>) \<noteq> 9000"
proof -
  have a: "fst (get_settings imported) = Inr (example_settings\<lparr>PORT := 8443\<rparr>)"
    by (simp add: get_settings_imported)
  have new: "dotenv_file file_rewritten ''.env'' = example_inputs\<lparr>in_PORT := Given 9000\<rparr>"
    by (simp add: file_rewritten_def only_file_def)
  have b: "in_PORT (dotenv_file file_rewritten ''.env'') = Given 9000"
    by (simp add: new)
  have c: "Settings (dotenv_file file_rewritten ''.env'') = Inr (example_settings\<lparr>PORT := 9000\<rparr>)"
    by (simp only: new Settings_example_9000)
  have d: "fst (reload_settings file_rewritten) = Inr (example_settings\<lparr>PORT := 8443\<rparr>)"
    by (simp add: reload_settings_discards sources_file_rewritten Settings_example_8443)
  from a b c d show ?thesis by simp
qed

text \<open>
  Claim C7. When nothing is cached and the construction fails, \<^verbatim>\<open>get_settings\<close> raises
  the very error of the construction after printing it, and the cache stays empty; the
  next call, whatever the sources are by then, returns the outcome of a construction
  from those sources.
\<close>

theorem get_settings_failure:
  assumes "g_settings_instance p = None"
    and "Settings (settings_sources p ''.env'') = Inl es"
  shows "get_settings p = (Inl es, p\<lparr>stdout := stdout p @ [load_error es, check_env_hint]\<rparr>)
    \<and> g_settings_instance (snd (get_settings p)) = None
    \<and> fst (get_settings (snd (get_settings p)\<lparr>os_environ := e', dotenv_file := d'\<rparr>))
        = Settings (settings_sources (p\<lparr>os_environ := e', dotenv_file := d'\<rparr>) ''.env'')"
  using assms
  by (auto simp: get_settings_def settings_sources_def split: sum.splits)

theorem get_settings_failure_witness:
  "get_settings (example_process (example_inputs\<lparr>in_TELEGRAM_BOT_TOKEN := Unset\<rparr>) None)
     = (Inl (ValidationError [(''TELEGRAM_BOT_TOKEN'', missing)]),
        (example_process (example_inputs\<lparr>in_TELEGRAM_BOT_TOKEN := Unset\<rparr>) None)
          \<lparr>stdout := [load_error (ValidationError [(''TELEGRAM_BOT_TOKEN'', missing)]),
                      check_env_hint]\<rparr>)
   \<and> g_settings_instance
        (snd (get_settings (example_process (example_inputs\<lparr>in_TELEGRAM_BOT_TOKEN := Unset\<rparr>) None)))
     = None
   \<and> fst (get_settings
        (snd (get_settings (example_process (example_inputs\<lparr>in_TELEGRAM_BOT_TOKEN := Unset\<rparr>) None))
          \<lparr>os_environ := example_inputs, dotenv_file := \<lambda>name. no_entries\<rparr>))
     = Inr example_settings"
proof -
  let ?p = "example_process (example_inputs\<lparr>in_TELEGRAM_BOT_TOKEN := Unset\<rparr>) None"
  have unset: "g_settings_instance ?p = None"
    by (simp add: example_process_def)
  have fails: "Settings (settings_sources ?p ''.env'')
      = Inl (ValidationError [(''TELEGRAM_BOT_TOKEN'', missing)])"
    by (simp only: settings_sources_example Settings_example_no_token)
  have later: "Settings (settings_sources
        (?p\<lparr>os_environ := example_inputs, dotenv_file := \<lambda>name. no_entries\<rparr>) ''.env'')
      = Inr example_settings"
  proof -
    have "?p\<lparr>os_environ := example_inputs, dotenv_file := \<lambda>name. no_entries\<rparr>
        = example_process example_inputs None"
      by (simp add: example_process_def)
    then show ?thesis
      by (simp only: settings_sources_example example_inputs_other_keys Settings_example)
  qed
  have out: "stdout ?p = []"
    by (simp add: example_process_def)
  note c7 = get_settings_failure
    [OF unset fails, where e' = example_inputs and d' = "\<lambda>name. no_entries"]
  from c7 [unfolded later out append_Nil] show ?thesis .
qed

section \<open>The test variant\<close>











end
